theory Spec2Isabelle
  imports Complex_Main "HOL-Library.AList"
begin

section \<open>Numeric building blocks\<close>

text \<open>
  Python floats and numpy arrays are modelled over the reals: a float is a \<open>real\<close>, a
  one-dimensional array is a \<open>real list\<close>, a 3-vector is a triple and a 3x3 matrix is a
  triple of rows. Rounding is therefore not part of this model.
\<close>

type_synonym vec3 = "real \<times> real \<times> real"
type_synonym mat3 = "vec3 \<times> vec3 \<times> vec3"

definition vec_add :: "vec3 \<Rightarrow> vec3 \<Rightarrow> vec3" where
  "vec_add a b = (case a of (a1, a2, a3) \<Rightarrow> case b of (b1, b2, b3) \<Rightarrow>
     (a1 + b1, a2 + b2, a3 + b3))"

definition vec_sub :: "vec3 \<Rightarrow> vec3 \<Rightarrow> vec3" where
  "vec_sub a b = (case a of (a1, a2, a3) \<Rightarrow> case b of (b1, b2, b3) \<Rightarrow>
     (a1 - b1, a2 - b2, a3 - b3))"

definition dot3 :: "vec3 \<Rightarrow> vec3 \<Rightarrow> real" where
  "dot3 a b = (case a of (a1, a2, a3) \<Rightarrow> case b of (b1, b2, b3) \<Rightarrow>
     a1 * b1 + a2 * b2 + a3 * b3)"

text \<open>\<open>M @ v\<close> for a 3x3 matrix and a 3-vector.\<close>

definition mat_vec :: "mat3 \<Rightarrow> vec3 \<Rightarrow> vec3" where
  "mat_vec m v = (case m of (r1, r2, r3) \<Rightarrow> (dot3 r1 v, dot3 r2 v, dot3 r3 v))"

definition col3 :: "mat3 \<Rightarrow> nat \<Rightarrow> vec3" where
  "col3 m j = (case m of ((a11, a12, a13), (a21, a22, a23), (a31, a32, a33)) \<Rightarrow>
     if j = 0 then (a11, a21, a31) else if j = 1 then (a12, a22, a32) else (a13, a23, a33))"

text \<open>\<open>A @ B\<close> for two 3x3 matrices.\<close>

definition mat_mul :: "mat3 \<Rightarrow> mat3 \<Rightarrow> mat3" where
  "mat_mul a b = (case a of (r1, r2, r3) \<Rightarrow>
     ((dot3 r1 (col3 b 0), dot3 r1 (col3 b 1), dot3 r1 (col3 b 2)),
      (dot3 r2 (col3 b 0), dot3 r2 (col3 b 1), dot3 r2 (col3 b 2)),
      (dot3 r3 (col3 b 0), dot3 r3 (col3 b 1), dot3 r3 (col3 b 2))))"

definition eye3 :: mat3 where
  "eye3 = ((1, 0, 0), (0, 1, 0), (0, 0, 1))"

definition det3 :: "mat3 \<Rightarrow> real" where
  "det3 m = (case m of ((a, b, c), (d, e, f), (g, h, i)) \<Rightarrow>
     a * (e * i - f * h) - b * (d * i - f * g) + c * (d * h - e * g))"

text \<open>\<open>np.linalg.inv\<close>: the inverse by cofactors; \<open>None\<close> is numpy's LinAlgError on a
  singular matrix.\<close>

definition mat_inv :: "mat3 \<Rightarrow> mat3 option" where
  "mat_inv m = (case m of ((a, b, c), (d, e, f), (g, h, i)) \<Rightarrow>
     let dt = det3 m in
     if dt = 0 then None
     else Some (((e * i - f * h) / dt, (c * h - b * i) / dt, (b * f - c * e) / dt),
                ((f * g - d * i) / dt, (a * i - c * g) / dt, (c * d - a * f) / dt),
                ((d * h - e * g) / dt, (b * g - a * h) / dt, (a * e - b * d) / dt)))"

text \<open>\<open>np.radians\<close> / \<open>np.deg2rad\<close> and \<open>np.degrees\<close>.\<close>

definition deg2rad :: "real \<Rightarrow> real" where
  "deg2rad d = d * pi / 180"

definition rad2deg :: "real \<Rightarrow> real" where
  "rad2deg r = r * 180 / pi"

text \<open>\<open>R.from_euler('x', a).as_matrix()\<close> and its siblings for the y and z axes.\<close>

definition rot_x :: "real \<Rightarrow> mat3" where
  "rot_x a = ((1, 0, 0), (0, cos a, - sin a), (0, sin a, cos a))"

definition rot_y :: "real \<Rightarrow> mat3" where
  "rot_y a = ((cos a, 0, sin a), (0, 1, 0), (- sin a, 0, cos a))"

definition rot_z :: "real \<Rightarrow> mat3" where
  "rot_z a = ((cos a, - sin a, 0), (sin a, cos a, 0), (0, 0, 1))"

text \<open>\<open>R.from_euler('xyz', rpy, degrees=True).as_matrix()\<close>: scipy's lower-case axis
  sequence rotates about the fixed axes x, then y, then z.\<close>

definition from_euler_xyz_deg :: "vec3 \<Rightarrow> mat3" where
  "from_euler_xyz_deg rpy = (case rpy of (a, b, c) \<Rightarrow>
     mat_mul (rot_z (deg2rad c)) (mat_mul (rot_y (deg2rad b)) (rot_x (deg2rad a))))"

text \<open>Python's float \<open>x % y\<close>: the result takes the sign of the divisor. This is
  the exact remainder, which for a positive divisor lies from 0 (included) to \<open>y\<close>
  (excluded). The float operation adds \<open>y\<close> to a negative remainder and rounds the
  sum, so for a negative \<open>x\<close> close to zero it returns \<open>y\<close> itself; what is stated
  about the program below therefore takes the remainder to lie from 0 to \<open>y\<close>, both
  included.\<close>

definition py_mod :: "real \<Rightarrow> real \<Rightarrow> real" where
  "py_mod x y = x - y * of_int \<lfloor>x / y\<rfloor>"

text \<open>\<open>np.clip(x, lo, hi)\<close>.\<close>

definition np_clip :: "real \<Rightarrow> real \<Rightarrow> real \<Rightarrow> real" where
  "np_clip x lo hi = min (max x lo) hi"

text \<open>\<open>np.linalg.norm\<close> of a one-dimensional array.\<close>

definition l2norm :: "real list \<Rightarrow> real" where
  "l2norm xs = sqrt (sum_list (map (\<lambda>x. x * x) xs))"

text \<open>\<open>np.resize(arr, n)\<close>: the new array is filled with repeated copies of \<open>arr\<close>
  (and cut after \<open>n\<close> elements); an empty \<open>arr\<close> gives zeros.\<close>

definition np_resize :: "real list \<Rightarrow> nat \<Rightarrow> real list" where
  "np_resize arr n =
     (if arr = [] then replicate n 0
      else map (\<lambda>i. arr ! (i mod length arr)) [0..<n])"

text \<open>\<open>np.compress(condition, a)\<close>: the entries of \<open>a\<close> where \<open>condition\<close> holds. A
  condition shorter than \<open>a\<close> truncates; a condition that is true beyond the end of \<open>a\<close>
  raises IndexError (\<open>None\<close>).\<close>

fun np_compress :: "bool list \<Rightarrow> real list \<Rightarrow> real list option" where
  "np_compress [] xs = Some []"
| "np_compress (c # cs) [] = (if c then None else np_compress cs [])"
| "np_compress (c # cs) (x # xs) =
     (case np_compress cs xs of None \<Rightarrow> None
      | Some r \<Rightarrow> Some (if c then x # r else r))"

section \<open>The tool dictionary\<close>

record tool_data =
  translation :: vec3
  orientation :: vec3

definition ROBOT_TOOLS :: "(string \<times> tool_data) list" where
  "ROBOT_TOOLS =
     [(''CHWYTAK_MALY'', \<lparr>translation = (0.100, 0.0, - 0.090), orientation = (0.0, - 180.0, 0.0)\<rparr>),
      (''CHWYTAK_DUZY'', \<lparr>translation = (0.0, 0.0, - 0.18831), orientation = (0.0, - 90.0, 0.0)\<rparr>)]"

section \<open>KinematicsEngine\<close>

text \<open>
  A pose is the 4x4 homogeneous matrix of the source, split into its rotation block
  \<open>[:3, :3]\<close> and its translation column \<open>[:3, 3]\<close>.
\<close>

record pose =
  position :: vec3
  rotation :: mat3

text \<open>
  The kinematic chain is an ikpy object built from a URDF file; its two solvers are
  fields of the engine here. \<open>chain_ik\<close> returns \<open>None\<close> when the solver raises. The
  mask has one entry per link of the chain, so the number of links is its length.
\<close>

record KinematicsEngine =
  chain_fk :: "real list \<Rightarrow> pose"
  chain_ik :: "vec3 \<Rightarrow> mat3 \<Rightarrow> real list \<Rightarrow> real list option"
  active_links_mask :: "bool list"
  tool_translation :: vec3
  tool_rotation_matrix :: mat3
  current_tool :: string

text \<open>\<open>self.world_offset\<close> is set to zero by the constructor and never written
  again.\<close>

definition world_offset :: vec3 where
  "world_offset = (0.0, 0.0, 0.0)"

definition set_tool :: "KinematicsEngine \<Rightarrow> string \<Rightarrow> KinematicsEngine" where
  "set_tool eng tool_name =
     (case map_of ROBOT_TOOLS tool_name of
        None \<Rightarrow> eng
      | Some td \<Rightarrow> eng\<lparr>tool_translation := translation td,
                       tool_rotation_matrix := from_euler_xyz_deg (orientation td),
                       current_tool := tool_name\<rparr>)"

text \<open>The first two statements of \<open>_active_to_full\<close>: the input is brought to six
  elements.\<close>

definition active_arr :: "real list \<Rightarrow> real list" where
  "active_arr active_joints =
     (let arr = (if length active_joints = 7 then tl active_joints else active_joints)
      in if length arr \<noteq> 6 then np_resize arr 6 else arr)"

text \<open>The scatter loop of \<open>_active_to_full\<close>; \<open>k\<close> is the loop's counter \<open>curr\<close>.\<close>

fun scatter :: "bool list \<Rightarrow> real list \<Rightarrow> nat \<Rightarrow> real list" where
  "scatter [] arr k = []"
| "scatter (act # acts) arr k =
     (if act \<and> k < 6 then arr ! k # scatter acts arr (k + 1)
      else 0 # scatter acts arr k)"

definition active_to_full :: "KinematicsEngine \<Rightarrow> real list \<Rightarrow> real list" where
  "active_to_full eng active_joints =
     scatter (active_links_mask eng) (active_arr active_joints) 0"

definition full_to_active :: "KinematicsEngine \<Rightarrow> real list \<Rightarrow> real list option" where
  "full_to_active eng full_vector =
     (if active_links_mask eng \<noteq> [] then np_compress (active_links_mask eng) full_vector
      else Some (replicate 6 0))"

definition forward_kinematics :: "KinematicsEngine \<Rightarrow> real list \<Rightarrow> pose" where
  "forward_kinematics eng active_angles =
     (let full_joints = active_to_full eng active_angles;
          flange_matrix = chain_fk eng full_joints;
          R_flange = rotation flange_matrix;
          P_flange = position flange_matrix;
          offset_global = mat_vec R_flange (tool_translation eng);
          P_tcp = vec_add (vec_add P_flange offset_global) world_offset
      in \<lparr>position = P_tcp, rotation = mat_mul R_flange (tool_rotation_matrix eng)\<rparr>)"

definition inverse_kinematics ::
  "KinematicsEngine \<Rightarrow> vec3 \<Rightarrow> mat3 \<Rightarrow> real list \<Rightarrow> real list option" where
  "inverse_kinematics eng target_position target_orientation initial_guess =
     (let target_raw = vec_sub target_position world_offset
      in case mat_inv (tool_rotation_matrix eng) of
           None \<Rightarrow> None
         | Some tool_inv \<Rightarrow>
             let flange_rot_matrix = mat_mul target_orientation tool_inv;
                 offset_global = mat_vec flange_rot_matrix (tool_translation eng);
                 target_pos_flange = vec_sub target_raw offset_global;
                 full_guess = active_to_full eng initial_guess
             in case chain_ik eng target_pos_flange flange_rot_matrix full_guess of
                  None \<Rightarrow> None
                | Some full_sol \<Rightarrow> full_to_active eng full_sol)"

section \<open>CartesianView\<close>

text \<open>
  The state of the Cartesian view that its control code reads and writes; the frames
  sent over the UART and the labels drawn on the page are outputs that the control
  code never reads back, and are left out. Times are seconds as returned by
  \<open>time.time()\<close>. \<open>page\<close> tells whether the view is attached
  to a page, \<open>on_error\<close> whether an error callback was given; \<open>ui_log\<close> records what the
  view shows to the operator, latest first. A dictionary of joint values is an
  association list from the keys \<open>J1\<close> .. \<open>J6\<close>.
\<close>

datatype ui_event = ErrorCode string | HomingRequiredDialog

type_synonym pydict = "(string \<times> real) list"

record CartesianView =
  ik :: KinematicsEngine
  is_jogging :: bool
  is_robot_homed :: bool
  alive :: bool
  commanded_joints :: "real list"
  feedback_joints_deg :: "real list"
  jog_speed_percent :: real
  last_jog_time :: real
  page :: bool
  on_error :: bool
  ui_log :: "ui_event list"

text \<open>The key \<open>f"J{i+1}"\<close> for \<open>i\<close> in \<open>range(6)\<close>.\<close>

definition joint_keys :: "string list" where
  "joint_keys = [''J1'', ''J2'', ''J3'', ''J4'', ''J5'', ''J6'']"

definition joint_key :: "nat \<Rightarrow> string" where
  "joint_key i = joint_keys ! i"

definition show_homing_required_dialog :: "CartesianView \<Rightarrow> CartesianView" where
  "show_homing_required_dialog s =
     (if \<not> page s then s
      else let s1 = (if on_error s then s\<lparr>ui_log := ErrorCode ''E1'' # ui_log s\<rparr> else s)
           in s1\<lparr>ui_log := HomingRequiredDialog # ui_log s1\<rparr>)"

text \<open>\<open>on_jog_stop\<close>, bound to the release of a jog button, and \<open>on_stop_click\<close>, the
  STOP button, without the button styling.\<close>

definition on_jog_stop :: "CartesianView \<Rightarrow> real \<Rightarrow> CartesianView" where
  "on_jog_stop s now = s\<lparr>is_jogging := False, last_jog_time := now\<rparr>"

definition on_stop_click :: "CartesianView \<Rightarrow> CartesianView" where
  "on_stop_click s =
     (let s1 = (if on_error s then s\<lparr>ui_log := ErrorCode ''W1'' # ui_log s\<rparr> else s)
      in s1\<lparr>is_jogging := False\<rparr>)"

text \<open>The first loop of \<open>update_from_feedback\<close>. The flag is false when an index was
  out of range: the exception ends the handler, the writes made so far stay.\<close>

fun store_feedback :: "nat list \<Rightarrow> pydict \<Rightarrow> real list \<Rightarrow> real list \<times> bool" where
  "store_feedback [] joint_values fb = (fb, True)"
| "store_feedback (i # rest) joint_values fb =
     (case map_of joint_values (joint_key i) of
        None \<Rightarrow> store_feedback rest joint_values fb
      | Some v \<Rightarrow> if i < length fb then store_feedback rest joint_values (fb[i := v])
                  else (fb, False))"

text \<open>The second loop of \<open>update_from_feedback\<close>; an index out of range ends it.\<close>

fun sync_commanded :: "nat list \<Rightarrow> real list \<Rightarrow> real list \<Rightarrow> real list" where
  "sync_commanded [] feedback_rad cmd = cmd"
| "sync_commanded (i # rest) feedback_rad cmd =
     (if i < length cmd \<and> i < length feedback_rad
      then sync_commanded rest feedback_rad
             (if \<bar>cmd ! i - feedback_rad ! i\<bar> > deg2rad 0.5 then cmd[i := feedback_rad ! i]
              else cmd)
      else cmd)"

definition update_from_feedback :: "CartesianView \<Rightarrow> pydict \<Rightarrow> real \<Rightarrow> CartesianView" where
  "update_from_feedback s joint_values now =
     (case store_feedback [0..<6] joint_values (feedback_joints_deg s) of
        (fb, ok) \<Rightarrow>
          let s1 = s\<lparr>feedback_joints_deg := fb\<rparr>
          in if \<not> ok then s1
             else if is_jogging s1 then s1
             else if now - last_jog_time s1 < 1.5 then s1
             else s1\<lparr>commanded_joints :=
                        sync_commanded [0..<6] (map deg2rad fb) (commanded_joints s1)\<rparr>)"

text \<open>One round of \<open>_update_loop\<close>, without the label refresh.\<close>

definition update_loop_step :: "CartesianView \<Rightarrow> CartesianView" where
  "update_loop_step s =
     (if \<not> is_jogging s then
        let has_zeros = list_all (\<lambda>v. \<bar>v\<bar> < 0.001) (commanded_joints s);
            has_feedback = list_ex (\<lambda>v. \<bar>v\<bar> > 0.01) (feedback_joints_deg s)
        in if has_zeros \<and> has_feedback
           then s\<lparr>commanded_joints := map deg2rad (feedback_joints_deg s)\<rparr>
           else s
      else s)"

subsection \<open>Point-to-point moves\<close>

text \<open>
  The worker thread of \<open>_animate_move\<close>, one recursive call per pass of its loop. The
  first argument bounds the number of passes; \<open>None\<close> means the bound was reached before
  the loop ended. \<open>animate_finish\<close> is the \<open>finally\<close> block. Arrays of different
  lengths make numpy raise in the subtraction, which leaves the loop through
  \<open>finally\<close> (numpy would stretch a one-element array instead; both vectors have six
  elements in every call the view makes).
\<close>

definition animate_finish :: "CartesianView \<Rightarrow> real \<Rightarrow> CartesianView" where
  "animate_finish s now = s\<lparr>is_jogging := False, last_jog_time := now\<rparr>"

definition animate_next :: "real list \<Rightarrow> real list \<Rightarrow> real \<Rightarrow> real list" where
  "animate_next current_local target speed_percent =
     (let diff = map2 (-) target current_local;
          dist = l2norm diff;
          factor = speed_percent / 100.0;
          step_size = min dist (0.075 * factor)
      in map2 (+) current_local (map (\<lambda>d. d / dist * step_size) diff))"

fun animate_run ::
  "nat \<Rightarrow> CartesianView \<Rightarrow> real list \<Rightarrow> real list \<Rightarrow> real \<Rightarrow> CartesianView option" where
  "animate_run 0 s current_local target now = None"
| "animate_run (Suc n) s current_local target now =
     (if \<not> (is_jogging s \<and> alive s) then Some (animate_finish s now)
      else if length target \<noteq> length current_local then Some (animate_finish s now)
      else if l2norm (map2 (-) target current_local) < 0.005
      then Some (animate_finish (s\<lparr>commanded_joints := target\<rparr>) now)
      else let nxt = animate_next current_local target (jog_speed_percent s)
           in animate_run n (s\<lparr>commanded_joints := nxt\<rparr>) nxt target now)"

definition animate_move ::
  "nat \<Rightarrow> CartesianView \<Rightarrow> real list \<Rightarrow> real \<Rightarrow> CartesianView option" where
  "animate_move n s target_joints_rad now =
     (if is_jogging s then Some s
      else animate_run n (s\<lparr>is_jogging := True\<rparr>) (commanded_joints s) target_joints_rad now)"

definition on_safety_click :: "nat \<Rightarrow> CartesianView \<Rightarrow> real \<Rightarrow> CartesianView option" where
  "on_safety_click n s now =
     (let s1 = (if on_error s then s\<lparr>ui_log := ErrorCode ''W2'' # ui_log s\<rparr> else s)
      in animate_move n s1 (map deg2rad [0, - 50, 70, 90, 0, 0]) now)"

definition on_standby_click :: "nat \<Rightarrow> CartesianView \<Rightarrow> real \<Rightarrow> CartesianView option" where
  "on_standby_click n s now = animate_move n s (replicate 6 0.0) now"

subsection \<open>Cartesian jogging\<close>

definition WORKSPACE_LIMITS :: "(real \<times> real) \<times> (real \<times> real) \<times> (real \<times> real)" where
  "WORKSPACE_LIMITS = ((- 0.700, 0.700), (- 0.700, 0.700), (- 0.300, 0.900))"

text \<open>The candidate target pose of one pass of \<open>_jog_thread\<close>: the current TCP pose
  moved by the step along the jogged axis, its position clipped to the workspace box.\<close>

definition jog_target :: "CartesianView \<Rightarrow> string \<Rightarrow> string \<Rightarrow> pose" where
  "jog_target s axis direction =
     (let sign = (if direction = ''plus'' then 1 else - 1);
          factor = jog_speed_percent s / 100.0;
          step_mm = max 0.2 (2.0 * factor);
          step_rad = max 0.002 (0.006 * factor);
          current_raw = commanded_joints s;
          current_tcp_matrix = forward_kinematics (ik s) current_raw;
          current_pos = position current_tcp_matrix;
          current_rot = rotation current_tcp_matrix;
          dx = (if axis = ''x'' then step_mm * sign else 0);
          dy = (if axis = ''y'' then step_mm * sign else 0);
          dz = (if axis = ''z'' then step_mm * sign else 0);
          drx = (if axis = ''rx'' then step_rad * sign else 0);
          dry = (if axis = ''ry'' then step_rad * sign else 0);
          drz = (if axis = ''rz'' then step_rad * sign else 0);
          target_pos = vec_add current_pos (dx / 1000.0, dy / 1000.0, dz / 1000.0);
          target_pos = (case target_pos of (tx, ty, tz) \<Rightarrow>
             case WORKSPACE_LIMITS of (lx, ly, lz) \<Rightarrow>
               (np_clip tx (fst lx) (snd lx), np_clip ty (fst ly) (snd ly),
                np_clip tz (fst lz) (snd lz)));
          target_rot =
            (if axis = ''rx'' then mat_mul current_rot (rot_x drx)
             else if axis = ''ry'' then mat_mul current_rot (rot_y dry)
             else if axis = ''rz'' then mat_mul current_rot (rot_z drz)
             else current_rot)
      in \<lparr>position = target_pos, rotation = target_rot\<rparr>)"

definition normalize_angle :: "real \<Rightarrow> real" where
  "normalize_angle q = py_mod (q + pi) (2 * pi) - pi"

text \<open>The solve of one pass: inverse kinematics from the candidate pose, seeded with
  the commanded vector, then the normalisation of every angle. \<open>None\<close> is a raised
  exception.\<close>

definition jog_solve :: "CartesianView \<Rightarrow> string \<Rightarrow> string \<Rightarrow> real list option" where
  "jog_solve s axis direction =
     (let tgt = jog_target s axis direction
      in case inverse_kinematics (ik s) (position tgt) (rotation tgt) (commanded_joints s) of
           None \<Rightarrow> None
         | Some nj_model \<Rightarrow> Some (map normalize_angle nj_model))"

text \<open>The largest joint jump over \<open>range(6)\<close>; a vector shorter than six raises
  IndexError.\<close>

definition max_diff :: "real list \<Rightarrow> real list \<Rightarrow> real option" where
  "max_diff nj_model current_raw =
     (if length nj_model < 6 \<or> length current_raw < 6 then None
      else Some (Max (set (map (\<lambda>i. \<bar>nj_model ! i - current_raw ! i\<bar>) [0..<6]))))"

text \<open>One pass of the loop of \<open>_jog_thread\<close> with a chain present. Every exception
  inside the \<open>try\<close> block leaves the state as it was.\<close>

definition jog_tick :: "CartesianView \<Rightarrow> string \<Rightarrow> string \<Rightarrow> CartesianView" where
  "jog_tick s axis direction =
     (let current_raw = commanded_joints s
      in case jog_solve s axis direction of
           None \<Rightarrow> s
         | Some nj_model \<Rightarrow>
             (case max_diff nj_model current_raw of
                None \<Rightarrow> s
              | Some d \<Rightarrow>
                  if d < 0.3 then s\<lparr>commanded_joints := nj_model\<rparr>
                  else if d < 0.6
                  then s\<lparr>commanded_joints :=
                           map (\<lambda>i. current_raw ! i + 0.2 * (nj_model ! i - current_raw ! i))
                             [0..<6]\<rparr>
                  else s))"

text \<open>\<open>on_jog_start\<close> up to the start of the worker thread.\<close>

definition on_jog_start :: "CartesianView \<Rightarrow> CartesianView" where
  "on_jog_start s =
     (if \<not> is_robot_homed s then show_homing_required_dialog s
      else if is_jogging s then s
      else s\<lparr>is_jogging := True\<rparr>)"

section \<open>JogView\<close>

text \<open>
  The joint view keeps its targets in degrees, in dictionaries keyed by joint name.
  An association list keeps the insertion order of a Python dictionary:
  \<open>AList.update\<close> overwrites a present key in place and appends a new one.
\<close>

record JogView =
  jog_is_jogging :: bool
  jog_is_robot_homed :: bool
  speed_percent :: int
  current_raw_values :: pydict
  internal_target_values :: pydict
  initial_sync_done :: bool
  jog_page :: bool
  jog_on_error :: bool
  jog_ui_log :: "ui_event list"

definition joint_limits :: "(string \<times> real \<times> real) list" where
  "joint_limits =
     [(''J1'', (- 90, 90)), (''J2'', (- 50, 140)), (''J3'', (- 100, 70)),
      (''J4'', (- 100, 180)), (''J5'', (- 120, 110)), (''J6'', (- 110, 180))]"

text \<open>\<open>d.get(k, 0.0)\<close>.\<close>

definition dict_get :: "pydict \<Rightarrow> string \<Rightarrow> real" where
  "dict_get d k = (case map_of d k of None \<Rightarrow> 0.0 | Some v \<Rightarrow> v)"

text \<open>The body of the loop of \<open>update_joints_and_fk\<close> for one item.\<close>

definition update_item :: "string \<times> real \<Rightarrow> JogView \<Rightarrow> JogView" where
  "update_item kv s =
     (case kv of (k, v) \<Rightarrow>
        let corrected_val = - v;
            s1 = s\<lparr>current_raw_values := AList.update k corrected_val (current_raw_values s)\<rparr>
        in if \<not> initial_sync_done s1
           then s1\<lparr>internal_target_values :=
                      AList.update k corrected_val (internal_target_values s1)\<rparr>
           else s1)"

text \<open>\<open>update_joints_and_fk\<close> without the label and TCP display. The items are those
  of the dictionary at the time of the call; when the view passes its own
  \<open>internal_target_values\<close>, each item is read before it is overwritten.\<close>

definition update_joints_and_fk :: "JogView \<Rightarrow> pydict \<Rightarrow> JogView" where
  "update_joints_and_fk s joint_values =
     (let s1 = fold update_item joint_values s
      in if joint_values \<noteq> [] then s1\<lparr>initial_sync_done := True\<rparr> else s1)"

definition set_homed_status :: "JogView \<Rightarrow> bool \<Rightarrow> JogView" where
  "set_homed_status s is_homed =
     (let s1 = s\<lparr>jog_is_robot_homed := is_homed\<rparr>
      in if is_homed
         then s1\<lparr>internal_target_values := map (\<lambda>k. (k, 0.0)) joint_keys,
                  initial_sync_done := True\<rparr>
         else s1)"

text \<open>The new target of one pass of the joint view's \<open>_jog_thread\<close>.\<close>

definition jog_new_target :: "real \<Rightarrow> string \<Rightarrow> string \<Rightarrow> real" where
  "jog_new_target current_target joint_code button_type =
     (let button_dir = (if button_type = ''plus'' then 1 else - 1);
          delta = 0.5 * button_dir;
          new_target = current_target + delta
      in case map_of joint_limits joint_code of
           None \<Rightarrow> new_target
         | Some (min_limit, max_limit) \<Rightarrow>
             if new_target < min_limit then min_limit
             else if new_target > max_limit then max_limit
             else new_target)"

text \<open>One pass of the loop of the joint view's \<open>_jog_thread\<close>.\<close>

definition jog_joint_tick :: "JogView \<Rightarrow> string \<Rightarrow> string \<Rightarrow> JogView" where
  "jog_joint_tick s joint_code button_type =
     (let current_target = dict_get (internal_target_values s) joint_code;
          new_target = jog_new_target current_target joint_code button_type;
          s1 = s\<lparr>internal_target_values :=
                    AList.update joint_code new_target (internal_target_values s)\<rparr>
      in update_joints_and_fk s1 (internal_target_values s1))"

definition jog_show_homing_required_dialog :: "JogView \<Rightarrow> JogView" where
  "jog_show_homing_required_dialog s =
     (if \<not> jog_page s then s
      else let s1 = (if jog_on_error s then s\<lparr>jog_ui_log := ErrorCode ''E1'' # jog_ui_log s\<rparr>
                     else s)
           in s1\<lparr>jog_ui_log := HomingRequiredDialog # jog_ui_log s1\<rparr>)"

definition jog_on_jog_start :: "JogView \<Rightarrow> JogView" where
  "jog_on_jog_start s =
     (if \<not> jog_is_robot_homed s then jog_show_homing_required_dialog s
      else if jog_is_jogging s then s
      else s\<lparr>jog_is_jogging := True\<rparr>)"

text \<open>Reading \<open>internal_target_values[f"J{i}"]\<close> for the six joints; \<open>None\<close> is a
  KeyError.\<close>

fun read_targets :: "pydict \<Rightarrow> string list \<Rightarrow> real list option" where
  "read_targets d [] = Some []"
| "read_targets d (k # ks) =
     (case map_of d k of None \<Rightarrow> None
      | Some v \<Rightarrow> (case read_targets d ks of None \<Rightarrow> None | Some vs \<Rightarrow> Some (v # vs)))"

text \<open>Storing a vector under the keys \<open>J1\<close>, \<open>J2\<close>, ... in order.\<close>

definition write_targets :: "pydict \<Rightarrow> real list \<Rightarrow> pydict" where
  "write_targets d vals = fold (\<lambda>kv. AList.update (fst kv) (snd kv)) (zip joint_keys vals) d"

definition jog_animate_next :: "real list \<Rightarrow> real list \<Rightarrow> int \<Rightarrow> real list" where
  "jog_animate_next current target speed =
     (let diff = map2 (-) target current;
          dist = l2norm diff;
          factor = real_of_int speed / 100.0;
          step_size = min dist (4.5 * factor)
      in map2 (+) current (map (\<lambda>d. d / dist * step_size) diff))"

text \<open>One moving pass of the joint view's \<open>_animate_move\<close>: the step towards the
  target is stored, then the display is refreshed through \<open>update_joints_and_fk\<close>.\<close>

definition jog_animate_pass :: "JogView \<Rightarrow> real list \<Rightarrow> real list \<Rightarrow> JogView" where
  "jog_animate_pass s current target_joints_deg =
     (let new_pos = jog_animate_next current target_joints_deg (speed_percent s);
          s1 = s\<lparr>internal_target_values :=
                    write_targets (internal_target_values s) new_pos\<rparr>
      in update_joints_and_fk s1 (internal_target_values s1))"

text \<open>
  The worker thread of the joint view's \<open>_animate_move\<close>, one recursive call per pass;
  the first argument bounds the number of passes. An exception (a missing key, arrays
  of different lengths) ends the thread where it stands.
\<close>

fun jog_animate_run :: "nat \<Rightarrow> JogView \<Rightarrow> real list \<Rightarrow> JogView option" where
  "jog_animate_run 0 s target_joints_deg = None"
| "jog_animate_run (Suc n) s target_joints_deg =
     (if \<not> jog_is_jogging s then Some (s\<lparr>jog_is_jogging := False\<rparr>)
      else case read_targets (internal_target_values s) joint_keys of
             None \<Rightarrow> Some s
           | Some current \<Rightarrow>
               if length target_joints_deg \<noteq> length current then Some s
               else if l2norm (map2 (-) target_joints_deg current) < 0.1
               then let s1 = s\<lparr>internal_target_values :=
                                   write_targets (internal_target_values s) target_joints_deg\<rparr>;
                        s2 = update_joints_and_fk s1 (internal_target_values s1)
                    in Some (s2\<lparr>jog_is_jogging := False\<rparr>)
               else jog_animate_run n (jog_animate_pass s current target_joints_deg)
                      target_joints_deg)"

definition jog_animate_move :: "nat \<Rightarrow> JogView \<Rightarrow> real list \<Rightarrow> JogView option" where
  "jog_animate_move n s target_joints_deg =
     (if jog_is_jogging s then Some s
      else jog_animate_run n (s\<lparr>jog_is_jogging := True\<rparr>) target_joints_deg)"

definition jog_on_safety_click :: "nat \<Rightarrow> JogView \<Rightarrow> JogView option" where
  "jog_on_safety_click n s =
     (let s1 = (if jog_on_error s then s\<lparr>jog_ui_log := ErrorCode ''W2'' # jog_ui_log s\<rparr> else s)
      in jog_animate_move n s1 [0, - 50, 70, 90, 0, 0])"

definition jog_on_standby_click :: "nat \<Rightarrow> JogView \<Rightarrow> JogView option" where
  "jog_on_standby_click n s = jog_animate_move n s (replicate 6 0.0)"

text \<open>The joint view as its constructor leaves it, attached to a page.\<close>

definition JogView_init :: JogView where
  "JogView_init =
     \<lparr>jog_is_jogging = False, jog_is_robot_homed = False, speed_percent = 50,
      current_raw_values = map (\<lambda>k. (k, 0.0)) joint_keys,
      internal_target_values = map (\<lambda>k. (k, 0.0)) joint_keys,
      initial_sync_done = False, jog_page = True, jog_on_error = True, jog_ui_log = []\<rparr>"

section \<open>Example objects\<close>

text \<open>
  A small engine for evaluating the definitions: a chain of eight links, the first and
  the last fixed, whose forward solver returns the identity pose and whose inverse
  solver returns its seed; the small gripper is mounted.
\<close>

definition example_engine :: KinematicsEngine where
  "example_engine =
     set_tool
       \<lparr>chain_fk = (\<lambda>q. \<lparr>position = (0, 0, 0), rotation = eye3\<rparr>),
        chain_ik = (\<lambda>p r guess. Some guess),
        active_links_mask = [False, True, True, True, True, True, True, False],
        tool_translation = (0, 0, 0),
        tool_rotation_matrix = eye3,
        current_tool = ''NONE''\<rparr>
       ''CHWYTAK_MALY''"

text \<open>The Cartesian view as its constructor leaves it, attached to a page, around a
  given engine.\<close>

definition CartesianView_init :: "KinematicsEngine \<Rightarrow> CartesianView" where
  "CartesianView_init eng =
     \<lparr>ik = eng, is_jogging = False, is_robot_homed = False, alive = True,
      commanded_joints = [0, 0, 0, 0, 0, 0], feedback_joints_deg = [0, 0, 0, 0, 0, 0],
      jog_speed_percent = 50, last_jog_time = 0, page = True, on_error = True, ui_log = []\<rparr>"

text \<open>An engine on a chain of six moving links whose flange sits one metre out along
  x, and whose inverse solver raises.\<close>

definition offset_engine :: KinematicsEngine where
  "offset_engine =
     set_tool
       \<lparr>chain_fk = (\<lambda>q. \<lparr>position = (1, 0, 0), rotation = eye3\<rparr>),
        chain_ik = (\<lambda>p r guess. None),
        active_links_mask = [True, True, True, True, True, True],
        tool_translation = (0, 0, 0),
        tool_rotation_matrix = eye3,
        current_tool = ''NONE''\<rparr>
       ''CHWYTAK_MALY''"

text \<open>The example engine with an inverse solver that always answers with the first
  moving joint at 0.4 rad and the others at zero.\<close>

definition jump_engine :: KinematicsEngine where
  "jump_engine = example_engine\<lparr>chain_ik := (\<lambda>p r guess. Some [0, 0.4, 0, 0, 0, 0, 0, 0])\<rparr>"

text \<open>An engine on a chain of six moving links whose flange slides along x with the
  first joint. Its inverse solver answers half a millimetre beyond the flange target,
  which is inside the solver's convergence limit of \<open>1e-3\<close>. The view has the first
  joint at 0.5995, so that the TCP stands at x = 0.6995, half a millimetre inside the
  workspace box.\<close>

definition slide_engine :: KinematicsEngine where
  "slide_engine =
     set_tool
       \<lparr>chain_fk = (\<lambda>q. \<lparr>position = (q ! 0, 0, 0), rotation = eye3\<rparr>),
        chain_ik = (\<lambda>p r guess. Some [fst p + 0.0005, 0, 0, 0, 0, 0]),
        active_links_mask = [True, True, True, True, True, True],
        tool_translation = (0, 0, 0),
        tool_rotation_matrix = eye3,
        current_tool = ''NONE''\<rparr>
       ''CHWYTAK_MALY''"

definition slide_view :: CartesianView where
  "slide_view = (CartesianView_init slide_engine)\<lparr>commanded_joints := [0.5995, 0, 0, 0, 0, 0]\<rparr>"

section \<open>Expanding and compressing joint vectors\<close>

lemma length_scatter: "length (scatter m arr k) = length m"
  by (induction m arbitrary: k) auto

lemma compress_scatter:
  "k + count_list m True \<le> 6 \<Longrightarrow> length arr = 6 \<Longrightarrow>
   np_compress m (scatter m arr k) = Some (take (count_list m True) (drop k arr))"
proof (induction m arbitrary: k)
  case Nil
  then show ?case by simp
next
  case (Cons act m)
  show ?case
  proof (cases act)
    case True
    with Cons.prems have k: "k < 6" and rest: "Suc k + count_list m True \<le> 6" by auto
    have "np_compress m (scatter m arr (Suc k)) = Some (take (count_list m True) (drop (Suc k) arr))"
      using Cons.IH [OF rest Cons.prems(2)] .
    moreover have "arr ! k # take (count_list m True) (drop (Suc k) arr)
                 = take (Suc (count_list m True)) (drop k arr)"
      using k Cons.prems(2) by (simp add: Cons_nth_drop_Suc [symmetric])
    ultimately show ?thesis using True k by simp
  next
    case False
    with Cons.prems have "k + count_list m True \<le> 6" by simp
    from Cons.IH [OF this Cons.prems(2)] False show ?thesis by simp
  qed
qed

lemma compress_total:
  "length full = length m \<Longrightarrow> \<exists>r. np_compress m full = Some r \<and> length r = count_list m True"
proof (induction m full rule: np_compress.induct)
  case (1 xs) then show ?case by simp
next
  case (2 c cs) then show ?case by simp
next
  case (3 c cs x xs)
  then show ?case by auto
qed

lemma scatter_compress:
  "length full = length m \<Longrightarrow> np_compress m full = Some r \<Longrightarrow>
   k + length r \<le> 6 \<Longrightarrow> (\<forall>j < length r. arr ! (k + j) = r ! j) \<Longrightarrow>
   i < length m \<Longrightarrow> m ! i \<Longrightarrow> scatter m arr k ! i = full ! i"
proof (induction m full arbitrary: r k i rule: np_compress.induct)
  case (1 xs) then show ?case by simp
next
  case (2 c cs) then show ?case by simp
next
  case (3 c cs x xs)
  from "3.prems"(1) have len: "length xs = length cs" by simp
  obtain r' where r': "np_compress cs xs = Some r'" 
    using "3.prems"(2) by (auto split: option.splits)
  show ?case
  proof (cases c)
    case True
    with "3.prems"(2) r' have r: "r = x # r'" by simp
    with "3.prems"(3) have k: "k < 6" and kr: "Suc k + length r' \<le> 6" by auto
    from "3.prems"(4) r have h0: "arr ! k = x" by force
    have hj: "\<forall>j < length r'. arr ! (Suc k + j) = r' ! j"
    proof (intro allI impI)
      fix j assume "j < length r'"
      then have "Suc j < length r" using r by simp
      with "3.prems"(4) have "arr ! (k + Suc j) = r ! Suc j" by blast
      then show "arr ! (Suc k + j) = r' ! j" using r by simp
    qed
    show ?thesis
    proof (cases i)
      case 0
      then show ?thesis using True k h0 by simp
    next
      case (Suc i')
      with "3.prems"(5,6) have "i' < length cs" "cs ! i'" by auto
      from "3.IH" [OF len r' kr hj this] show ?thesis using True k Suc by simp
    qed
  next
    case False
    with "3.prems"(2) r' have r: "r = r'" by simp
    show ?thesis
    proof (cases i)
      case 0
      then show ?thesis using False "3.prems"(6) by simp
    next
      case (Suc i')
      with "3.prems"(5,6) have "i' < length cs" "cs ! i'" by auto
      from "3.IH" [OF len r' "3.prems"(3) [unfolded r] "3.prems"(4) [unfolded r] this]
      show ?thesis using False Suc by simp
    qed
  qed
qed

lemma active_arr_6: "length v = 6 \<Longrightarrow> active_arr v = v"
  by (simp add: active_arr_def)


text \<open>
  Claim C6. Under a mask with exactly six true entries, compressing a full-chain
  vector and expanding the result gives back the original values at every active
  position, and expanding a six-element vector and compressing the result gives back
  that vector.
\<close>

theorem expand_compress_roundtrip:
  assumes six: "count_list (active_links_mask eng) True = 6"
  shows "(length full = length (active_links_mask eng) \<longrightarrow>
            (\<exists>r. full_to_active eng full = Some r \<and> length r = 6 \<and>
                 (\<forall>i < length full. active_links_mask eng ! i \<longrightarrow>
                      active_to_full eng r ! i = full ! i)))
       \<and> (length reduced = 6 \<longrightarrow>
            full_to_active eng (active_to_full eng reduced) = Some reduced)"
proof (intro conjI impI)
  assume len: "length full = length (active_links_mask eng)"
  from six have ne: "active_links_mask eng \<noteq> []" by auto
  from compress_total [OF len] six obtain r
    where r: "np_compress (active_links_mask eng) full = Some r" and lr: "length r = 6"
    by auto
  have "\<forall>i < length full. active_links_mask eng ! i \<longrightarrow> active_to_full eng r ! i = full ! i"
  proof (intro allI impI)
    fix i assume i: "i < length full" and act: "active_links_mask eng ! i"
    have "scatter (active_links_mask eng) r 0 ! i = full ! i"
      by (rule scatter_compress [OF len r _ _ _ act]) (use lr i len in simp_all)
    then show "active_to_full eng r ! i = full ! i"
      by (simp add: active_to_full_def active_arr_6 [OF lr])
  qed
  with r lr ne show "\<exists>r. full_to_active eng full = Some r \<and> length r = 6 \<and>
        (\<forall>i < length full. active_links_mask eng ! i \<longrightarrow> active_to_full eng r ! i = full ! i)"
    by (simp add: full_to_active_def)
next
  assume lr: "length reduced = 6"
  from six have ne: "active_links_mask eng \<noteq> []" by auto
  have "np_compress (active_links_mask eng) (scatter (active_links_mask eng) reduced 0)
        = Some (take (count_list (active_links_mask eng) True) (drop 0 reduced))"
    by (rule compress_scatter) (use six lr in simp_all)
  then show "full_to_active eng (active_to_full eng reduced) = Some reduced"
    using ne six lr by (simp add: full_to_active_def active_to_full_def active_arr_6 [OF lr])
qed

lemma example_mask [simp]:
  "active_links_mask example_engine = [False, True, True, True, True, True, True, False]"
  by (simp add: example_engine_def set_tool_def ROBOT_TOOLS_def)

theorem expand_compress_roundtrip_witness:
  "count_list (active_links_mask example_engine) True = 6
   \<and> length [9, 1, 2, 3, 4, 5, 6, 9 :: real] = length (active_links_mask example_engine)
   \<and> full_to_active example_engine [9, 1, 2, 3, 4, 5, 6, 9] = Some [1, 2, 3, 4, 5, 6]
   \<and> active_to_full example_engine [1, 2, 3, 4, 5, 6] = [0, 1, 2, 3, 4, 5, 6, 0]
   \<and> length [1, 2, 3, 4, 5, 6 :: real] = 6
   \<and> full_to_active example_engine (active_to_full example_engine [1, 2, 3, 4, 5, 6])
       = Some [1, 2, 3, 4, 5, 6]"
proof -
  have six: "count_list (active_links_mask example_engine) True = 6" by simp
  have l6: "length [1, 2, 3, 4, 5, 6 :: real] = 6" by simp
  from expand_compress_roundtrip [OF six, of "[9, 1, 2, 3, 4, 5, 6, 9]" "[1, 2, 3, 4, 5, 6]"]
  have rt: "full_to_active example_engine (active_to_full example_engine [1, 2, 3, 4, 5, 6])
       = Some [1, 2, 3, 4, 5, 6]" using l6 by blast
  have c: "full_to_active example_engine [9, 1, 2, 3, 4, 5, 6, 9] = Some [1, 2, 3, 4, 5, 6]"
    by (simp add: full_to_active_def)
  have e: "active_to_full example_engine [1, 2, 3, 4, 5, 6] = [0, 1, 2, 3, 4, 5, 6, 0]"
    by (simp add: active_to_full_def active_arr_def)
  show ?thesis using six rt c e by simp
qed

lemma np_resize_length: "length (np_resize arr n) = n"
  by (simp add: np_resize_def)

text \<open>
  Claim C9, as the code has it. A seven-element input loses its first element. An
  input of any other length than six is brought to six elements by numpy's resize:
  element \<open>i\<close> of the result is element \<open>i mod n\<close> of the \<open>n\<close>-element input, so
  a longer input is cut after six elements and a shorter one is repeated; only the
  empty input gives zeros.
\<close>

theorem active_arr_lengths:
  "(length v = 7 \<longrightarrow> active_arr v = tl v)
   \<and> (length v \<noteq> 6 \<and> length v \<noteq> 7 \<longrightarrow>
        length (active_arr v) = 6
        \<and> (\<forall>i < 6. active_arr v ! i = (if v = [] then 0 else v ! (i mod length v))))"
  by (auto simp: active_arr_def np_resize_def Let_def)

theorem active_arr_lengths_witness:
  "length [0, 1, 2, 3, 4, 5, 6 :: real] = 7
   \<and> active_arr [0, 1, 2, 3, 4, 5, 6] = [1, 2, 3, 4, 5, 6]
   \<and> length [7, 8 :: real] \<noteq> 6 \<and> length [7, 8 :: real] \<noteq> 7
   \<and> active_arr [7, 8] = [7, 8, 7, 8, 7, 8]
   \<and> active_arr [1, 2, 3, 4, 5, 6, 7, 8] = [1, 2, 3, 4, 5, 6]
   \<and> active_arr [] = [0, 0, 0, 0, 0, 0]"
proof -
  have a: "active_arr [0, 1, 2, 3, 4, 5, 6] = [1, 2, 3, 4, 5, 6]"
    using active_arr_lengths [of "[0, 1, 2, 3, 4, 5, 6]"] by simp
  have b: "length (active_arr [7, 8]) = 6"
    using active_arr_lengths [of "[7, 8]"] by simp
  have c: "active_arr [7, 8] = [7, 8, 7, 8, 7, 8]"
    by code_simp
  have d: "active_arr [1, 2, 3, 4, 5, 6, 7, 8] = [1, 2, 3, 4, 5, 6]"
    by code_simp
  have e: "active_arr [] = [0, 0, 0, 0, 0, 0]"
    by code_simp
  show ?thesis using a b c d e by simp
qed

text \<open>The one-element input \<open>[1]\<close> becomes six ones, not a one followed by zeros.\<close>

theorem active_arr_zero_padding_counterexample:
  "length [1 :: real] \<noteq> 6 \<and> length [1 :: real] \<noteq> 7
   \<and> active_arr [1] = [1, 1, 1, 1, 1, 1] \<and> active_arr [1] \<noteq> [1, 0, 0, 0, 0, 0]"
  by code_simp

section \<open>Forward kinematics and the normalisation of solved angles\<close>

lemma small_tool_rot: "from_euler_xyz_deg (0, - 180, 0) = ((- 1, 0, 0), (0, 1, 0), (0, 0, - 1))"
  by (simp add: from_euler_xyz_deg_def deg2rad_def rot_x_def rot_y_def rot_z_def mat_mul_def dot3_def col3_def)

lemma example_engine_simps:
  "chain_fk example_engine = (\<lambda>q. \<lparr>position = (0, 0, 0), rotation = eye3\<rparr>)"
  "chain_ik example_engine = (\<lambda>p r guess. Some guess)"
  "active_links_mask example_engine = [False, True, True, True, True, True, True, False]"
  "tool_translation example_engine = (0.1, 0, - 0.09)"
  "tool_rotation_matrix example_engine = ((- 1, 0, 0), (0, 1, 0), (0, 0, - 1))"
  by (simp_all add: example_engine_def set_tool_def ROBOT_TOOLS_def small_tool_rot)

lemma normalize_angle_0: "normalize_angle 0 = 0"
  by (simp add: normalize_angle_def py_mod_def)

lemma ex_fk: "forward_kinematics example_engine q = \<lparr>position = (0.1, 0, - 0.09), rotation = ((- 1, 0, 0), (0, 1, 0), (0, 0, - 1))\<rparr>"
  by (simp add: forward_kinematics_def example_engine_simps Let_def world_offset_def mat_vec_def mat_mul_def eye3_def dot3_def col3_def vec_add_def)

lemma ex_target: "jog_target (CartesianView_init example_engine) ''x'' ''plus'' = \<lparr>position = (0.101, 0, - 0.09), rotation = ((- 1, 0, 0), (0, 1, 0), (0, 0, - 1))\<rparr>"
  by (simp add: jog_target_def CartesianView_init_def ex_fk Let_def vec_add_def WORKSPACE_LIMITS_def np_clip_def)

lemma ex_solve: "jog_solve (CartesianView_init example_engine) ''x'' ''plus'' = Some [0, 0, 0, 0, 0, 0]"
  apply (simp add: jog_solve_def ex_target Let_def)
  apply (simp add: inverse_kinematics_def CartesianView_init_def example_engine_simps mat_inv_def det3_def Let_def
       full_to_active_def active_to_full_def active_arr_def normalize_angle_0)
  done


lemma mat_mul_eye_left: "mat_mul eye3 m = m"
  by (cases m rule: prod_cases3; simp add: mat_mul_def eye3_def dot3_def col3_def split: prod.splits)

lemma mat_vec_eye: "mat_vec eye3 v = v"
  by (simp add: mat_vec_def eye3_def dot3_def split: prod.splits)

text \<open>
  Claim C1. For every joint vector, \<open>forward_kinematics\<close> returns the flange pose of
  the chain composed with the mounted tool: the position is the flange position plus
  the flange rotation applied to the tool translation, the rotation is the flange
  rotation times the tool rotation. With the tool CHWYTAK_MALY and an identity flange
  pose the position is (0.100, 0, -0.090) and the rotation is the tool's rotation
  matrix, the one built from the Euler angles (0, -180, 0) degrees.
\<close>

theorem forward_kinematics_composes_tool:
  "(let flange = chain_fk eng (active_to_full eng q); tcp = forward_kinematics eng q
    in position tcp = vec_add (position flange) (mat_vec (rotation flange) (tool_translation eng))
       \<and> rotation tcp = mat_mul (rotation flange) (tool_rotation_matrix eng))
   \<and> (let eng' = set_tool eng ''CHWYTAK_MALY''
      in chain_fk eng' (active_to_full eng' q) = \<lparr>position = (0, 0, 0), rotation = eye3\<rparr> \<longrightarrow>
           position (forward_kinematics eng' q) = (0.100, 0, - 0.090)
           \<and> rotation (forward_kinematics eng' q) = tool_rotation_matrix eng'
           \<and> tool_rotation_matrix eng' = from_euler_xyz_deg (0, - 180, 0))"
  apply (simp add: Let_def forward_kinematics_def world_offset_def)
  apply (intro conjI impI)
  apply (simp_all add: vec_add_def mat_vec_eye mat_mul_eye_left set_tool_def ROBOT_TOOLS_def split: prod.splits)
  done

lemma set_tool_example: "set_tool example_engine ''CHWYTAK_MALY'' = example_engine"
  by (simp add: example_engine_def set_tool_def ROBOT_TOOLS_def)

theorem forward_kinematics_composes_tool_witness:
  "chain_fk example_engine (active_to_full example_engine [0, 0, 0, 0, 0, 0])
     = \<lparr>position = (0, 0, 0), rotation = eye3\<rparr>
   \<and> position (forward_kinematics example_engine [0, 0, 0, 0, 0, 0]) = (0.100, 0, - 0.090)
   \<and> rotation (forward_kinematics example_engine [0, 0, 0, 0, 0, 0])
       = ((- 1, 0, 0), (0, 1, 0), (0, 0, - 1))"
proof -
  have flange: "chain_fk example_engine (active_to_full example_engine [0, 0, 0, 0, 0, 0])
     = \<lparr>position = (0, 0, 0), rotation = eye3\<rparr>"
    by (simp add: example_engine_simps)
  note scenario = forward_kinematics_composes_tool
    [of example_engine "[0, 0, 0, 0, 0, 0]", THEN conjunct2, unfolded Let_def set_tool_example]
  from scenario flange
  have "position (forward_kinematics example_engine [0, 0, 0, 0, 0, 0]) = (0.100, 0, - 0.090)
        \<and> rotation (forward_kinematics example_engine [0, 0, 0, 0, 0, 0])
            = tool_rotation_matrix example_engine"
    by blast
  with flange show ?thesis by (simp add: example_engine_simps)
qed

text \<open>
  Claim C7, as the code has it. Every angle of a vector that the solve of a jog pass
  returns lies in the closed interval from \<open>-pi\<close> to \<open>pi\<close>, both ends included.
\<close>

theorem jog_solve_normalized:
  "jog_solve s axis direction = Some nj \<Longrightarrow> \<forall>q \<in> set nj. - pi \<le> q \<and> q \<le> pi"
proof -
  have rng: "- pi \<le> normalize_angle q \<and> normalize_angle q \<le> pi" for q
  proof -
    have p: "0 < 2 * pi" by simp
    let ?x = "(q + pi) / (2 * pi)"
    have lo: "of_int \<lfloor>?x\<rfloor> \<le> ?x" and hi: "?x < of_int \<lfloor>?x\<rfloor> + 1" by linarith+
    have a: "of_int \<lfloor>?x\<rfloor> * (2 * pi) \<le> q + pi"
      using lo pos_le_divide_eq [OF p] by blast
    have b: "q + pi < (of_int \<lfloor>?x\<rfloor> + 1) * (2 * pi)"
      using hi pos_divide_less_eq [OF p] by blast
    show ?thesis using a b by (simp add: normalize_angle_def py_mod_def algebra_simps)
  qed
  assume "jog_solve s axis direction = Some nj"
  then obtain raw where "nj = map normalize_angle raw"
    by (auto simp: jog_solve_def Let_def split: option.splits)
  then show ?thesis using rng by auto
qed

theorem jog_solve_normalized_witness:
  "jog_solve (CartesianView_init example_engine) ''x'' ''plus'' = Some [0, 0, 0, 0, 0, 0]
   \<and> - pi \<le> (0 :: real) \<and> (0 :: real) \<le> pi"
  using jog_solve_normalized [OF ex_solve] ex_solve by simp

lemma normalize_angle_pi: "normalize_angle pi = - pi"
  by (simp add: normalize_angle_def py_mod_def)

text \<open>A joint solved at \<open>pi\<close> is normalised to \<open>-pi\<close>, which is outside the
  interval that excludes \<open>-pi\<close> and includes \<open>pi\<close>.\<close>

theorem jog_solve_half_open_counterexample:
  "jog_solve ((CartesianView_init example_engine)\<lparr>commanded_joints := [pi, 0, 0, 0, 0, 0]\<rparr>)
     ''x'' ''plus'' = Some [- pi, 0, 0, 0, 0, 0]
   \<and> \<not> (- pi < (- pi :: real) \<and> (- pi :: real) \<le> pi)"
  apply (simp add: jog_solve_def Let_def)
  apply (simp add: jog_target_def CartesianView_init_def ex_fk Let_def vec_add_def WORKSPACE_LIMITS_def np_clip_def)
  apply (simp add: inverse_kinematics_def example_engine_simps mat_inv_def det3_def Let_def
       full_to_active_def active_to_full_def active_arr_def normalize_angle_0 normalize_angle_pi world_offset_def)
  done

section \<open>The Cartesian jog pass\<close>

lemma set_map_upt6: "set (map f [0..<6]) = f ` {..<6}"
  by (simp add: atLeast0LessThan)

text \<open>
  Claim C2. In a jog pass whose solve succeeds, let \<open>d\<close> be the largest absolute
  difference per joint between the normalised result and the commanded vector. If
  \<open>d < 0.3\<close> the commanded vector becomes the result; if \<open>0.3 \<le> d < 0.6\<close> every
  joint becomes \<open>current + 0.2 * (result - current)\<close>; if \<open>d\<close> exceeds 0.6, or the
  solve raises, the commanded vector is the one before the pass.
\<close>

theorem jog_tick_singularity_gate:
  "(jog_solve s axis direction = None \<longrightarrow> jog_tick s axis direction = s)
   \<and> (\<forall>nj. jog_solve s axis direction = Some nj \<and> length nj = 6
             \<and> length (commanded_joints s) = 6 \<longrightarrow>
         (let cur = commanded_joints s;
              d = Max ((\<lambda>i. \<bar>nj ! i - cur ! i\<bar>) ` {..<6});
              new = commanded_joints (jog_tick s axis direction)
          in (d < 0.3 \<longrightarrow> new = nj)
             \<and> (0.3 \<le> d \<and> d < 0.6 \<longrightarrow>
                  length new = 6 \<and> (\<forall>i < 6. new ! i = cur ! i + 0.2 * (nj ! i - cur ! i)))
             \<and> (0.6 < d \<longrightarrow> new = cur)))"
proof (intro conjI impI allI)
  assume "jog_solve s axis direction = None"
  then show "jog_tick s axis direction = s" by (simp add: jog_tick_def)
next
  fix nj
  assume h: "jog_solve s axis direction = Some nj \<and> length nj = 6 \<and> length (commanded_joints s) = 6"
  then have md: "max_diff nj (commanded_joints s)
       = Some (Max ((\<lambda>i. \<bar>nj ! i - commanded_joints s ! i\<bar>) ` {..<6}))"
    by (simp add: max_diff_def set_map_upt6 del: set_map set_upt)
  show "let cur = commanded_joints s;
            d = Max ((\<lambda>i. \<bar>nj ! i - cur ! i\<bar>) ` {..<6});
            new = commanded_joints (jog_tick s axis direction)
        in (d < 0.3 \<longrightarrow> new = nj)
           \<and> (0.3 \<le> d \<and> d < 0.6 \<longrightarrow>
                length new = 6 \<and> (\<forall>i < 6. new ! i = cur ! i + 0.2 * (nj ! i - cur ! i)))
           \<and> (0.6 < d \<longrightarrow> new = cur)"
    using h md by (simp add: jog_tick_def Let_def)
qed

lemma np_clip_bounds: "lo \<le> hi \<Longrightarrow> lo \<le> np_clip x lo hi \<and> np_clip x lo hi \<le> hi"
  by (simp add: np_clip_def)

lemma fst_vec_add: "fst (vec_add a b) = fst a + fst b"
  by (simp add: vec_add_def split: prod.splits)

lemma jog_target_position:
  "\<exists>tx ty tz. position (jog_target s axis direction) =
     (np_clip tx (fst (fst WORKSPACE_LIMITS)) (snd (fst WORKSPACE_LIMITS)),
      np_clip ty (fst (fst (snd WORKSPACE_LIMITS))) (snd (fst (snd WORKSPACE_LIMITS))),
      np_clip tz (fst (snd (snd WORKSPACE_LIMITS))) (snd (snd (snd WORKSPACE_LIMITS))))"
  unfolding jog_target_def Let_def case_prod_beta
  by (simp only: pose.simps) blast

lemma jog_target_x_plus:
  "fst (position (jog_target s ''x'' ''plus'')) =
     np_clip (fst (position (forward_kinematics (ik s) (commanded_joints s)))
                + max 0.2 (2.0 * (jog_speed_percent s / 100)) / 1000) (- 0.7) 0.7"
  by (simp add: jog_target_def Let_def WORKSPACE_LIMITS_def case_prod_beta fst_vec_add)

lemma normalize_angle_id:
  assumes "- pi \<le> q" "q < pi"
  shows "normalize_angle q = q"
proof -
  have "\<lfloor>(q + pi) / (2 * pi)\<rfloor> = 0"
  proof (rule floor_unique)
    show "of_int 0 \<le> (q + pi) / (2 * pi)" using assms by simp
    show "(q + pi) / (2 * pi) < of_int 0 + 1" using assms by simp
  qed
  then show ?thesis by (simp add: normalize_angle_def py_mod_def)
qed

lemma slide_engine_simps:
  "chain_fk slide_engine = (\<lambda>q. \<lparr>position = (q ! 0, 0, 0), rotation = eye3\<rparr>)"
  "chain_ik slide_engine = (\<lambda>p r guess. Some [fst p + 0.0005, 0, 0, 0, 0, 0])"
  "active_links_mask slide_engine = [True, True, True, True, True, True]"
  "tool_translation slide_engine = (0.1, 0, - 0.09)"
  "tool_rotation_matrix slide_engine = ((- 1, 0, 0), (0, 1, 0), (0, 0, - 1))"
  by (simp_all add: slide_engine_def set_tool_def ROBOT_TOOLS_def small_tool_rot)

lemma slide_fk:
  "forward_kinematics slide_engine [a, b, c, d, e, f]
     = \<lparr>position = (a + 0.1, 0, - 0.09), rotation = ((- 1, 0, 0), (0, 1, 0), (0, 0, - 1))\<rparr>"
  by (simp add: forward_kinematics_def slide_engine_simps Let_def world_offset_def mat_vec_def
      mat_mul_def eye3_def dot3_def col3_def vec_add_def active_to_full_def active_arr_def)

lemma slide_view_simps:
  "ik slide_view = slide_engine" "commanded_joints slide_view = [0.5995, 0, 0, 0, 0, 0]"
  "jog_speed_percent slide_view = 50"
  by (simp_all add: slide_view_def CartesianView_init_def)

lemma slide_target:
  "jog_target slide_view ''x'' ''plus''
     = \<lparr>position = (0.7, 0, - 0.09), rotation = ((- 1, 0, 0), (0, 1, 0), (0, 0, - 1))\<rparr>"
  by (simp add: jog_target_def slide_view_simps slide_fk Let_def vec_add_def WORKSPACE_LIMITS_def np_clip_def)

lemma slide_solve: "jog_solve slide_view ''x'' ''plus'' = Some [0.6005, 0, 0, 0, 0, 0]"
proof -
  have n: "normalize_angle (1201 / 2000) = 1201 / 2000"
    using pi_ge_two by (intro normalize_angle_id) simp_all
  show ?thesis
    by (simp add: jog_solve_def slide_target Let_def inverse_kinematics_def slide_view_simps
        slide_engine_simps mat_inv_def det3_def mat_mul_def mat_vec_def dot3_def col3_def vec_sub_def
        world_offset_def full_to_active_def active_to_full_def active_arr_def normalize_angle_0 n)
qed

lemma slide_tick: "commanded_joints (jog_tick slide_view ''x'' ''plus'') = [0.6005, 0, 0, 0, 0, 0]"
  by (simp add: jog_tick_def slide_solve max_diff_def slide_view_simps upt_rec)


lemma np_clip_cases:
  "lo \<le> hi \<Longrightarrow> np_clip t lo hi = (if t < lo then lo else if hi < t then hi else t)"
  by (simp add: np_clip_def)

lemma jog_target_clipped:
  "position (jog_target s axis direction) =
     (let cur = position (forward_kinematics (ik s) (commanded_joints s));
          sign = (if direction = ''plus'' then 1 else - 1);
          step_mm = max 0.2 (2.0 * (jog_speed_percent s / 100));
          dx = (if axis = ''x'' then step_mm * sign else 0) / 1000;
          dy = (if axis = ''y'' then step_mm * sign else 0) / 1000;
          dz = (if axis = ''z'' then step_mm * sign else 0) / 1000
      in (np_clip (fst cur + dx) (- 0.7) 0.7,
          np_clip (fst (snd cur) + dy) (- 0.7) 0.7,
          np_clip (snd (snd cur) + dz) (- 0.3) 0.9))"
  by (cases "position (forward_kinematics (ik s) (commanded_joints s))" rule: prod_cases3)
     (simp add: jog_target_def Let_def WORKSPACE_LIMITS_def vec_add_def)

text \<open>
  Claim C3, as the code has it. In every jog pass the candidate target position is the
  current TCP position moved by the step along the jogged axis and then clamped, each
  axis on its own, into x and y between -0.700 and 0.700 and z between -0.300 and
  0.900; this clamped position is the one handed to the inverse solver. A jog in +x
  that would take the TCP beyond 0.700 has the target x exactly 0.700. The position of
  the TCP after the pass is not bounded by this.
\<close>

theorem jog_target_in_workspace:
  "(let clamp = (\<lambda>t lo hi :: real. if t < lo then lo else if hi < t then hi else t);
        cur = position (forward_kinematics (ik s) (commanded_joints s));
        sign = (if direction = ''plus'' then 1 else - 1);
        step_mm = max 0.2 (2.0 * (jog_speed_percent s / 100));
        dx = (if axis = ''x'' then step_mm * sign else 0) / 1000;
        dy = (if axis = ''y'' then step_mm * sign else 0) / 1000;
        dz = (if axis = ''z'' then step_mm * sign else 0) / 1000
    in position (jog_target s axis direction)
         = (clamp (fst cur + dx) (- 0.700) 0.700,
            clamp (fst (snd cur) + dy) (- 0.700) 0.700,
            clamp (snd (snd cur) + dz) (- 0.300) 0.900))
   \<and> (case position (jog_target s axis direction) of (x, y, z) \<Rightarrow>
       - 0.700 \<le> x \<and> x \<le> 0.700 \<and> - 0.700 \<le> y \<and> y \<le> 0.700 \<and> - 0.300 \<le> z \<and> z \<le> 0.900)
   \<and> jog_solve s axis direction =
       map_option (map normalize_angle)
         (inverse_kinematics (ik s) (position (jog_target s axis direction))
            (rotation (jog_target s axis direction)) (commanded_joints s))
   \<and> (fst (position (forward_kinematics (ik s) (commanded_joints s)))
         + max 0.2 (2.0 * (jog_speed_percent s / 100)) / 1000 > 0.700 \<longrightarrow>
       fst (position (jog_target s ''x'' ''plus'')) = 0.700)"
proof (intro conjI impI)
  show "let clamp = (\<lambda>t lo hi :: real. if t < lo then lo else if hi < t then hi else t);
        cur = position (forward_kinematics (ik s) (commanded_joints s));
        sign = (if direction = ''plus'' then 1 else - 1);
        step_mm = max 0.2 (2.0 * (jog_speed_percent s / 100));
        dx = (if axis = ''x'' then step_mm * sign else 0) / 1000;
        dy = (if axis = ''y'' then step_mm * sign else 0) / 1000;
        dz = (if axis = ''z'' then step_mm * sign else 0) / 1000
    in position (jog_target s axis direction)
         = (clamp (fst cur + dx) (- 0.700) 0.700,
            clamp (fst (snd cur) + dy) (- 0.700) 0.700,
            clamp (snd (snd cur) + dz) (- 0.300) 0.900)"
    unfolding jog_target_clipped Let_def
    by (simp add: np_clip_cases)
next
  show "case position (jog_target s axis direction) of (x, y, z) \<Rightarrow>
       - 0.700 \<le> x \<and> x \<le> 0.700 \<and> - 0.700 \<le> y \<and> y \<le> 0.700 \<and> - 0.300 \<le> z \<and> z \<le> 0.900"
  proof -
    from jog_target_position [of s axis direction] obtain tx ty tz
      where "position (jog_target s axis direction) =
        (np_clip tx (fst (fst WORKSPACE_LIMITS)) (snd (fst WORKSPACE_LIMITS)),
         np_clip ty (fst (fst (snd WORKSPACE_LIMITS))) (snd (fst (snd WORKSPACE_LIMITS))),
         np_clip tz (fst (snd (snd WORKSPACE_LIMITS))) (snd (snd (snd WORKSPACE_LIMITS))))"
      by blast
    then show ?thesis by (auto simp: np_clip_def WORKSPACE_LIMITS_def)
  qed
next
  show "jog_solve s axis direction =
       map_option (map normalize_angle)
         (inverse_kinematics (ik s) (position (jog_target s axis direction))
            (rotation (jog_target s axis direction)) (commanded_joints s))"
    by (simp add: jog_solve_def Let_def split: option.splits)
next
  assume "fst (position (forward_kinematics (ik s) (commanded_joints s)))
         + max 0.2 (2.0 * (jog_speed_percent s / 100)) / 1000 > 0.700"
  then show "fst (position (jog_target s ''x'' ''plus'')) = 0.700"
    unfolding jog_target_x_plus by (simp add: np_clip_def)
qed

lemma offset_engine_simps:
  "chain_fk offset_engine = (\<lambda>q. \<lparr>position = (1, 0, 0), rotation = eye3\<rparr>)"
  "chain_ik offset_engine = (\<lambda>p r guess. None)"
  "active_links_mask offset_engine = [True, True, True, True, True, True]"
  "tool_translation offset_engine = (0.1, 0, - 0.09)"
  "tool_rotation_matrix offset_engine = ((- 1, 0, 0), (0, 1, 0), (0, 0, - 1))"
  by (simp_all add: offset_engine_def set_tool_def ROBOT_TOOLS_def small_tool_rot)

lemma offset_solve: "jog_solve (CartesianView_init offset_engine) axis direction = None"
  by (simp add: jog_solve_def Let_def inverse_kinematics_def CartesianView_init_def offset_engine_simps mat_inv_def det3_def)

lemma normalize_angle_small: "normalize_angle (2 / 5) = 2 / 5"
proof -
  have p3: "2 \<le> pi" by (rule pi_ge_two)
  have "\<lfloor>(2 / 5 + pi) / (2 * pi)\<rfloor> = 0"
  proof (rule floor_unique)
    show "of_int 0 \<le> (2 / 5 + pi) / (2 * pi)" using p3 by simp
    show "(2 / 5 + pi) / (2 * pi) < of_int 0 + 1" using p3 by simp
  qed
  then show ?thesis by (simp add: normalize_angle_def py_mod_def)
qed

lemma jump_engine_simps:
  "chain_fk jump_engine = (\<lambda>q. \<lparr>position = (0, 0, 0), rotation = eye3\<rparr>)"
  "chain_ik jump_engine = (\<lambda>p r guess. Some [0, 0.4, 0, 0, 0, 0, 0, 0])"
  "active_links_mask jump_engine = [False, True, True, True, True, True, True, False]"
  "tool_translation jump_engine = (0.1, 0, - 0.09)"
  "tool_rotation_matrix jump_engine = ((- 1, 0, 0), (0, 1, 0), (0, 0, - 1))"
  by (simp_all add: jump_engine_def example_engine_simps)

lemma jump_solve:
  "jog_solve (CartesianView_init jump_engine) ''x'' ''plus'' = Some [0.4, 0, 0, 0, 0, 0]"
  by (simp add: jog_solve_def Let_def inverse_kinematics_def CartesianView_init_def jump_engine_simps
      mat_inv_def det3_def full_to_active_def normalize_angle_0 normalize_angle_small)

lemma lessThan6: "{..<6 :: nat} = {0, 1, 2, 3, 4, 5}"
  by auto

lemma jump_max: "Max ((\<lambda>i. \<bar>[0.4, 0, 0, 0, 0, 0 :: real] ! i - [0, 0, 0, 0, 0, 0] ! i\<bar>) ` {..<6}) = 0.4"
  by (simp add: lessThan6)


theorem jog_tick_singularity_gate_witness:
  "jog_solve (CartesianView_init offset_engine) ''x'' ''plus'' = None
   \<and> jog_tick (CartesianView_init offset_engine) ''x'' ''plus'' = CartesianView_init offset_engine
   \<and> jog_solve (CartesianView_init example_engine) ''x'' ''plus'' = Some [0, 0, 0, 0, 0, 0]
   \<and> commanded_joints (jog_tick (CartesianView_init example_engine) ''x'' ''plus'')
       = [0, 0, 0, 0, 0, 0]
   \<and> jog_solve (CartesianView_init jump_engine) ''x'' ''plus'' = Some [0.4, 0, 0, 0, 0, 0]
   \<and> length (commanded_joints (jog_tick (CartesianView_init jump_engine) ''x'' ''plus'')) = 6
   \<and> commanded_joints (jog_tick (CartesianView_init jump_engine) ''x'' ''plus'') ! 0 = 0.08
   \<and> commanded_joints (jog_tick (CartesianView_init jump_engine) ''x'' ''plus'') ! 1 = 0"
proof -
  note none = offset_solve [of "''x''" "''plus''"]
  have a: "jog_tick (CartesianView_init offset_engine) ''x'' ''plus'' = CartesianView_init offset_engine"
    using jog_tick_singularity_gate [of "CartesianView_init offset_engine" "''x''" "''plus''"] none
    by blast
  have cur: "commanded_joints (CartesianView_init eng) = [0, 0, 0, 0, 0, 0]" for eng
    by (simp add: CartesianView_init_def)
  have "(0::nat) \<in> {..<6}" by simp
  then have "(\<lambda>i::nat. 0 :: real) ` {..<6} = {0}" by blast
  then have d: "Max ((\<lambda>i::nat. 0 :: real) ` {..<6}) = 0"
    by simp
  have b: "commanded_joints (jog_tick (CartesianView_init example_engine) ''x'' ''plus'')
       = [0, 0, 0, 0, 0, 0]"
    using jog_tick_singularity_gate [of "CartesianView_init example_engine" "''x''" "''plus''",
        THEN conjunct2, rule_format, of "[0, 0, 0, 0, 0, 0]"] ex_solve
    by (simp add: cur d Let_def)
  have blend: "length (commanded_joints (jog_tick (CartesianView_init jump_engine) ''x'' ''plus'')) = 6
      \<and> (\<forall>i < 6. commanded_joints (jog_tick (CartesianView_init jump_engine) ''x'' ''plus'') ! i
             = [0, 0, 0, 0, 0, 0] ! i + 0.2 * ([0.4, 0, 0, 0, 0, 0] ! i - [0, 0, 0, 0, 0, 0] ! i))"
    using jog_tick_singularity_gate [of "CartesianView_init jump_engine" "''x''" "''plus''",
        THEN conjunct2, rule_format, of "[0.4, 0, 0, 0, 0, 0]"] jump_solve jump_max
    by (simp add: cur Let_def)
  have c0: "commanded_joints (jog_tick (CartesianView_init jump_engine) ''x'' ''plus'') ! 0 = 0.08"
    using blend [THEN conjunct2, rule_format, of 0] by simp
  have c1: "commanded_joints (jog_tick (CartesianView_init jump_engine) ''x'' ''plus'') ! 1 = 0"
    using blend [THEN conjunct2, rule_format, of 1] by simp
  show ?thesis using none a ex_solve b jump_solve blend c0 c1 by simp
qed

theorem jog_target_in_workspace_witness:
  "fst (position (forward_kinematics (ik slide_view) (commanded_joints slide_view))) = 0.6995
   \<and> fst (position (forward_kinematics (ik slide_view) (commanded_joints slide_view)))
       + max 0.2 (2.0 * (jog_speed_percent slide_view / 100)) / 1000 > 0.700
   \<and> fst (position (jog_target slide_view ''x'' ''plus'')) = 0.700
   \<and> position (jog_target slide_view ''y'' ''minus'') = (0.6995, - 0.001, - 0.09)"
proof -
  have cur: "position (forward_kinematics (ik slide_view) (commanded_joints slide_view))
             = (0.6995, 0, - 0.09)"
    by (simp add: slide_view_simps slide_fk)
  have h: "fst (position (forward_kinematics (ik slide_view) (commanded_joints slide_view)))
       + max 0.2 (2.0 * (jog_speed_percent slide_view / 100)) / 1000 > 0.700"
    unfolding cur by (simp add: slide_view_simps)
  have a: "fst (position (jog_target slide_view ''x'' ''plus'')) = 0.700"
    using jog_target_in_workspace [where s = slide_view and axis = "''x''" and direction = "''plus''"] h
    by blast
  have b: "position (jog_target slide_view ''y'' ''minus'') = (0.6995, - 0.001, - 0.09)"
    using jog_target_in_workspace
            [where s = slide_view and axis = "''y''" and direction = "''minus''", THEN conjunct1]
    unfolding cur by (simp add: Let_def slide_view_simps)
  show ?thesis using cur h a b by simp
qed

text \<open>On a chain whose flange slides along x, the TCP stands at x = 0.6995, inside
  the box. A jog in +x has the target clamped to 0.700; the solver answers half a
  millimetre beyond it, the pass accepts the answer, and the TCP ends at x = 0.7005,
  outside the box.\<close>

theorem jog_tick_leaves_workspace_counterexample:
  "position (forward_kinematics (ik slide_view) (commanded_joints slide_view))
     = (0.6995, 0, - 0.09)
   \<and> position (jog_target slide_view ''x'' ''plus'') = (0.7, 0, - 0.09)
   \<and> position (forward_kinematics (ik (jog_tick slide_view ''x'' ''plus''))
        (commanded_joints (jog_tick slide_view ''x'' ''plus''))) = (0.7005, 0, - 0.09)
   \<and> \<not> (0.7005 \<le> (0.700 :: real))"
proof -
  have ik: "ik (jog_tick slide_view ''x'' ''plus'') = slide_engine"
    by (simp add: jog_tick_def slide_solve max_diff_def slide_view_simps upt_rec)
  show ?thesis
    by (simp add: ik slide_tick slide_fk slide_view_simps slide_target)
qed

section \<open>Feedback reconciliation in the Cartesian view\<close>

lemma store_feedback_ok:
  "\<forall>i \<in> set idxs. i < length fb \<Longrightarrow>
   \<exists>fb'. store_feedback idxs jv fb = (fb', True) \<and> length fb' = length fb
     \<and> (\<forall>j < length fb. fb' ! j =
           (if j \<in> set idxs then (case map_of jv (joint_key j) of None \<Rightarrow> fb ! j | Some v \<Rightarrow> v)
            else fb ! j))"
proof (induction idxs arbitrary: fb)
  case Nil
  then show ?case by simp
next
  case (Cons i rest)
  show ?case
  proof (cases "map_of jv (joint_key i)")
    case None
    from Cons.prems have "\<forall>i \<in> set rest. i < length fb" by simp
    from Cons.IH [OF this] None show ?thesis by auto
  next
    case (Some v)
    from Cons.prems have i: "i < length fb" and "\<forall>k \<in> set rest. k < length (fb[i := v])" by simp_all
    from Cons.IH [OF this(2)] obtain fb' where
      r: "store_feedback rest jv (fb[i := v]) = (fb', True)" and l: "length fb' = length fb"
      and v: "\<forall>j < length fb. fb' ! j =
           (if j \<in> set rest then (case map_of jv (joint_key j) of None \<Rightarrow> fb[i := v] ! j | Some w \<Rightarrow> w)
            else fb[i := v] ! j)"
      by auto
    have "\<forall>j < length fb. fb' ! j =
           (if j \<in> set (i # rest) then (case map_of jv (joint_key j) of None \<Rightarrow> fb ! j | Some v \<Rightarrow> v)
            else fb ! j)"
    proof (intro allI impI)
      fix j assume j: "j < length fb"
      show "fb' ! j = (if j \<in> set (i # rest) then (case map_of jv (joint_key j) of None \<Rightarrow> fb ! j | Some v \<Rightarrow> v)
            else fb ! j)"
        using v [rule_format, OF j] Some i j
        by (cases "j = i") (auto split: option.splits)
    qed
    with r l Some i show ?thesis by simp
  qed
qed

lemma sync_commanded_nth:
  "distinct idxs \<Longrightarrow> \<forall>i \<in> set idxs. i < length cmd \<and> i < length fr \<Longrightarrow>
   length (sync_commanded idxs fr cmd) = length cmd
   \<and> (\<forall>j < length cmd. sync_commanded idxs fr cmd ! j =
         (if j \<in> set idxs \<and> \<bar>cmd ! j - fr ! j\<bar> > deg2rad 0.5 then fr ! j else cmd ! j))"
proof (induction idxs arbitrary: cmd)
  case Nil
  then show ?case by simp
next
  case (Cons i rest)
  let ?cmd' = "if \<bar>cmd ! i - fr ! i\<bar> > deg2rad 0.5 then cmd[i := fr ! i] else cmd"
  from Cons.prems have i: "i < length cmd" "i < length fr" and ni: "i \<notin> set rest"
    and d: "distinct rest" and b: "\<forall>k \<in> set rest. k < length ?cmd' \<and> k < length fr"
    by auto
  from Cons.IH [OF d b] have
    l: "length (sync_commanded rest fr ?cmd') = length cmd"
    and v: "\<forall>j < length cmd. sync_commanded rest fr ?cmd' ! j =
         (if j \<in> set rest \<and> \<bar>?cmd' ! j - fr ! j\<bar> > deg2rad 0.5 then fr ! j else ?cmd' ! j)"
    by auto
  have step: "sync_commanded (i # rest) fr cmd = sync_commanded rest fr ?cmd'"
    using i by simp
  have "\<forall>j < length cmd. sync_commanded rest fr ?cmd' ! j =
         (if j \<in> set (i # rest) \<and> \<bar>cmd ! j - fr ! j\<bar> > deg2rad 0.5 then fr ! j else cmd ! j)"
  proof (intro allI impI)
    fix j assume j: "j < length cmd"
    show "sync_commanded rest fr ?cmd' ! j =
         (if j \<in> set (i # rest) \<and> \<bar>cmd ! j - fr ! j\<bar> > deg2rad 0.5 then fr ! j else cmd ! j)"
      using v [rule_format, OF j] ni i j
      by (cases "j = i") auto
  qed
  with l step show ?case by simp
qed

text \<open>
  The sample handler on its own. A feedback sample handled while the view is jogging
  or moving, or less than 1.5 s after \<open>last_jog_time\<close>, leaves the commanded vector
  as it was and only stores the sample's values for display. Outside that window every
  joint whose commanded value differs from the feedback by more than 0.5 degrees takes
  the feedback value, and every other joint keeps its commanded value.
\<close>

theorem update_from_feedback_debounce:
  "(is_jogging s \<or> now - last_jog_time s < 1.5 \<longrightarrow>
      commanded_joints (update_from_feedback s jv now) = commanded_joints s)
   \<and> (length (feedback_joints_deg s) = 6 \<longrightarrow>
        (\<forall>i < 6. feedback_joints_deg (update_from_feedback s jv now) ! i =
           (case map_of jv (joint_key i) of None \<Rightarrow> feedback_joints_deg s ! i | Some v \<Rightarrow> v)))
   \<and> (\<not> is_jogging s \<and> 1.5 \<le> now - last_jog_time s
        \<and> length (feedback_joints_deg s) = 6 \<and> length (commanded_joints s) = 6 \<longrightarrow>
        (\<forall>i < 6. commanded_joints (update_from_feedback s jv now) ! i =
           (let fb = deg2rad (feedback_joints_deg (update_from_feedback s jv now) ! i)
            in if \<bar>commanded_joints s ! i - fb\<bar> > deg2rad 0.5 then fb
               else commanded_joints s ! i)))"
proof (intro conjI impI)
  assume "is_jogging s \<or> now - last_jog_time s < 1.5"
  then show "commanded_joints (update_from_feedback s jv now) = commanded_joints s"
    by (auto simp: update_from_feedback_def Let_def split: prod.splits)
next
  assume len: "length (feedback_joints_deg s) = 6"
  then have "\<forall>i \<in> set [0..<6]. i < length (feedback_joints_deg s)" by simp
  from store_feedback_ok [OF this, of jv] len obtain fb' where
    r: "store_feedback [0..<6] jv (feedback_joints_deg s) = (fb', True)"
    and v: "\<forall>j < 6. fb' ! j = (case map_of jv (joint_key j) of None \<Rightarrow> feedback_joints_deg s ! j | Some v \<Rightarrow> v)"
    by auto
  have "feedback_joints_deg (update_from_feedback s jv now) = fb'"
    using r by (simp add: update_from_feedback_def Let_def)
  with v show "\<forall>i < 6. feedback_joints_deg (update_from_feedback s jv now) ! i =
           (case map_of jv (joint_key i) of None \<Rightarrow> feedback_joints_deg s ! i | Some v \<Rightarrow> v)"
    by simp
next
  assume h: "\<not> is_jogging s \<and> 1.5 \<le> now - last_jog_time s
        \<and> length (feedback_joints_deg s) = 6 \<and> length (commanded_joints s) = 6"
  then have "\<forall>i \<in> set [0..<6]. i < length (feedback_joints_deg s)" by simp
  from store_feedback_ok [OF this, of jv] h obtain fb' where
    r: "store_feedback [0..<6] jv (feedback_joints_deg s) = (fb', True)"
    and l: "length fb' = 6"
    by auto
  have fb: "feedback_joints_deg (update_from_feedback s jv now) = fb'"
    using r by (simp add: update_from_feedback_def Let_def)
  have cmd: "commanded_joints (update_from_feedback s jv now)
      = sync_commanded [0..<6] (map deg2rad fb') (commanded_joints s)"
    using r h by (simp add: update_from_feedback_def Let_def)
  have "distinct [0..<6]" by simp
  moreover have "\<forall>i \<in> set [0..<6]. i < length (commanded_joints s) \<and> i < length (map deg2rad fb')"
    using h l by simp
  ultimately have "\<forall>j < length (commanded_joints s).
      sync_commanded [0..<6] (map deg2rad fb') (commanded_joints s) ! j =
         (if j \<in> set [0..<6] \<and> \<bar>commanded_joints s ! j - map deg2rad fb' ! j\<bar> > deg2rad 0.5
          then map deg2rad fb' ! j else commanded_joints s ! j)"
    using sync_commanded_nth by blast
  then show "\<forall>i < 6. commanded_joints (update_from_feedback s jv now) ! i =
           (let fb = deg2rad (feedback_joints_deg (update_from_feedback s jv now) ! i)
            in if \<bar>commanded_joints s ! i - fb\<bar> > deg2rad 0.5 then fb
               else commanded_joints s ! i)"
    using h l by (simp add: cmd fb Let_def)
qed


lemma joint_key_simps:
  "joint_key 0 = ''J1''" "joint_key 1 = ''J2''" "joint_key (Suc 0) = ''J2''" "joint_key 2 = ''J3''"
  "joint_key 3 = ''J4''" "joint_key 4 = ''J5''" "joint_key 5 = ''J6''"
  by (simp_all add: joint_key_def joint_keys_def)

theorem update_from_feedback_debounce_witness:
  "(let s = (CartesianView_init example_engine)\<lparr>last_jog_time := 10\<rparr>;
        jv = [(''J1'', 5), (''J2'', 0.2)]
    in 11 - last_jog_time s < 1.5
       \<and> commanded_joints (update_from_feedback s jv 11) = [0, 0, 0, 0, 0, 0]
       \<and> feedback_joints_deg (update_from_feedback s jv 11) ! 0 = 5
       \<and> \<not> is_jogging s \<and> 1.5 \<le> 12 - last_jog_time s
       \<and> commanded_joints (update_from_feedback s jv 12) ! 0 = deg2rad 5
       \<and> commanded_joints (update_from_feedback s jv 12) ! 1 = 0)"
proof -
  define s where "s = (CartesianView_init example_engine)\<lparr>last_jog_time := 10\<rparr>"
  define jv :: pydict where "jv = [(''J1'', 5), (''J2'', 0.2)]"
  have st: "last_jog_time s = 10" "\<not> is_jogging s" "commanded_joints s = [0, 0, 0, 0, 0, 0]"
    "feedback_joints_deg s = [0, 0, 0, 0, 0, 0]"
    by (simp_all add: s_def CartesianView_init_def)
  have a: "commanded_joints (update_from_feedback s jv 11) = [0, 0, 0, 0, 0, 0]"
    using update_from_feedback_debounce [of s 11 jv] st by simp
  have fb: "feedback_joints_deg (update_from_feedback s jv now) ! 0 = 5"
    "feedback_joints_deg (update_from_feedback s jv now) ! 1 = 0.2"
    "feedback_joints_deg (update_from_feedback s jv now) ! Suc 0 = 0.2" for now
    using update_from_feedback_debounce [of s now jv, THEN conjunct2, THEN conjunct1] st
    by (simp_all add: jv_def joint_key_simps)
  have c: "\<forall>i < 6. commanded_joints (update_from_feedback s jv 12) ! i =
           (let fb = deg2rad (feedback_joints_deg (update_from_feedback s jv 12) ! i)
            in if \<bar>commanded_joints s ! i - fb\<bar> > deg2rad 0.5 then fb
               else commanded_joints s ! i)"
    using update_from_feedback_debounce [of s 12 jv, THEN conjunct2, THEN conjunct2] st by simp
  have c0: "commanded_joints (update_from_feedback s jv 12) ! 0 = deg2rad 5"
    using c [rule_format, of 0] by (simp add: fb st Let_def deg2rad_def)
  have c1: "commanded_joints (update_from_feedback s jv 12) ! 1 = 0"
    using c [rule_format, of 1] by (simp add: fb st Let_def deg2rad_def)
  show ?thesis
    unfolding Let_def s_def [symmetric] jv_def [symmetric]
    using a fb c0 c1 st by simp
qed

text \<open>
  The display loop has a fallback of its own, outside the handler above: when the view
  is not jogging, the commanded vector is all zero and some feedback is not, it copies
  the feedback into the commanded vector without looking at \<open>last_jog_time\<close>.
\<close>

lemma update_loop_step_ignores_cooldown:
  "(let s = (CartesianView_init example_engine)
              \<lparr>last_jog_time := 10, feedback_joints_deg := [5, 0, 0, 0, 0, 0]\<rparr>
    in commanded_joints s = [0, 0, 0, 0, 0, 0]
       \<and> commanded_joints (update_loop_step s) = [deg2rad 5, 0, 0, 0, 0, 0])"
  by (simp add: Let_def update_loop_step_def CartesianView_init_def deg2rad_def)

section \<open>Jogging a single joint\<close>

lemma fold_update_item_synced:
  "initial_sync_done s \<Longrightarrow>
   internal_target_values (fold update_item jv s) = internal_target_values s
   \<and> initial_sync_done (fold update_item jv s)"
proof (induction jv arbitrary: s)
  case Nil
  then show ?case by simp
next
  case (Cons kv jv)
  have "initial_sync_done (update_item kv s)"
    and "internal_target_values (update_item kv s) = internal_target_values s"
    using Cons.prems by (simp_all add: update_item_def Let_def split: prod.splits)
  with Cons.IH [of "update_item kv s"] show ?case by simp
qed

lemma update_joints_and_fk_synced:
  "initial_sync_done s \<Longrightarrow>
   internal_target_values (update_joints_and_fk s jv) = internal_target_values s
   \<and> initial_sync_done (update_joints_and_fk s jv)"
  using fold_update_item_synced [of s jv] by (simp add: update_joints_and_fk_def Let_def)

text \<open>A jog thread only starts on a homed view, and homing sets
  \<open>initial_sync_done\<close>.\<close>

lemma set_homed_status_synced:
  "jog_is_robot_homed (set_homed_status s True) \<and> initial_sync_done (set_homed_status s True)"
  by (simp add: set_homed_status_def Let_def)

text \<open>
  Claim C10. For each of the six joints, with the limits J1 [-90, 90], J2 [-50, 140],
  J3 [-100, 70], J4 [-100, 180], J5 [-120, 110], J6 [-110, 180] degrees, the new target
  of a jog pass lies within the joint's limits, for every starting value and both
  buttons, and it is the value the pass stores as the joint's target.
\<close>

theorem jog_joint_tick_within_limits:
  assumes "(joint_code, lo, hi) \<in> set [(''J1'', - 90, 90), (''J2'', - 50, 140), (''J3'', - 100, 70),
                                    (''J4'', - 100, 180), (''J5'', - 120, 110), (''J6'', - 110, 180)]"
  shows "lo \<le> jog_new_target current_target joint_code button_type
         \<and> jog_new_target current_target joint_code button_type \<le> hi
         \<and> (initial_sync_done s \<longrightarrow>
              map_of (internal_target_values (jog_joint_tick s joint_code button_type)) joint_code
                = Some (jog_new_target (dict_get (internal_target_values s) joint_code)
                          joint_code button_type))"
proof -
  have lim: "map_of joint_limits joint_code = Some (lo, hi)" and le: "lo \<le> hi"
    using assms by (auto simp: joint_limits_def)
  have a: "lo \<le> jog_new_target current_target joint_code button_type
         \<and> jog_new_target current_target joint_code button_type \<le> hi"
    using lim le by (simp add: jog_new_target_def Let_def)
  have b: "initial_sync_done s \<longrightarrow>
              map_of (internal_target_values (jog_joint_tick s joint_code button_type)) joint_code
                = Some (jog_new_target (dict_get (internal_target_values s) joint_code)
                          joint_code button_type)"
  proof
    assume sync: "initial_sync_done s"
    let ?v = "jog_new_target (dict_get (internal_target_values s) joint_code) joint_code button_type"
    let ?s1 = "s\<lparr>internal_target_values := AList.update joint_code ?v (internal_target_values s)\<rparr>"
    have "initial_sync_done ?s1" using sync by simp
    from update_joints_and_fk_synced [OF this]
    have "internal_target_values (jog_joint_tick s joint_code button_type)
          = AList.update joint_code ?v (internal_target_values s)"
      by (simp add: jog_joint_tick_def Let_def)
    then show "map_of (internal_target_values (jog_joint_tick s joint_code button_type)) joint_code
                = Some ?v"
      by (simp add: update_conv')
  qed
  from a b show ?thesis by blast
qed

theorem jog_joint_tick_within_limits_witness:
  "(''J2'', - 50, 140) \<in> set [(''J1'', - 90, 90), (''J2'', - 50, 140), (''J3'', - 100, 70),
                                    (''J4'', - 100, 180), (''J5'', - 120, 110), (''J6'', - 110, 180 :: real)]
   \<and> jog_new_target 139.8 ''J2'' ''plus'' = 140
   \<and> jog_new_target (- 50) ''J2'' ''minus'' = - 50
   \<and> initial_sync_done (set_homed_status JogView_init True)
   \<and> map_of (internal_target_values
               (jog_joint_tick (set_homed_status JogView_init True) ''J2'' ''plus'')) ''J2''
       = Some 0.5"
proof -
  have m: "(''J2'', - 50, 140) \<in> set [(''J1'', - 90, 90), (''J2'', - 50, 140), (''J3'', - 100, 70),
                                    (''J4'', - 100, 180), (''J5'', - 120, 110), (''J6'', - 110, 180 :: real)]"
    by simp
  have sync: "initial_sync_done (set_homed_status JogView_init True)"
    by (simp add: set_homed_status_synced)
  have a: "jog_new_target 139.8 ''J2'' ''plus'' = 140"
    using jog_joint_tick_within_limits [OF m, of "139.8" "''plus''"]
    by (simp add: jog_new_target_def joint_limits_def Let_def)
  have b: "jog_new_target (- 50) ''J2'' ''minus'' = - 50"
    by (simp add: jog_new_target_def joint_limits_def Let_def)
  have c: "jog_new_target (dict_get (internal_target_values (set_homed_status JogView_init True)) ''J2'')
              ''J2'' ''plus'' = 0.5"
    by (simp add: jog_new_target_def joint_limits_def Let_def dict_get_def set_homed_status_def joint_keys_def)
  from jog_joint_tick_within_limits [OF m, of 0 "''plus''" "set_homed_status JogView_init True"] sync c
  have d: "map_of (internal_target_values
               (jog_joint_tick (set_homed_status JogView_init True) ''J2'' ''plus'')) ''J2''
       = Some 0.5" by simp
  show ?thesis using m a b sync d by blast
qed

section \<open>Point-to-point moves of the Cartesian view\<close>

lemma l2norm_nonneg: "0 \<le> l2norm xs"
  by (auto simp: l2norm_def intro!: sum_list_nonneg)

lemma l2norm_scale: "l2norm (map (\<lambda>x. c * x) xs) = \<bar>c\<bar> * l2norm xs"
proof -
  have "sum_list (map (\<lambda>x. (c * x) * (c * x)) xs) = (c * c) * sum_list (map (\<lambda>x. x * x) xs)"
    by (simp add: sum_list_const_mult [symmetric] algebra_simps)
  then show ?thesis
    by (simp add: l2norm_def comp_def real_sqrt_mult)
qed

lemma step_diff:
  "length tgt = length cur \<Longrightarrow>
   map2 (-) tgt (map2 (+) cur (map (\<lambda>d. d / D * step) (map2 (-) tgt cur)))
     = map (\<lambda>d. (1 - step / D) * d) (map2 (-) tgt cur)" for D step :: real
  by (induction tgt cur rule: list_induct2) (simp_all add: algebra_simps)

lemma step_dist:
  assumes len: "length tgt = length cur"
    and pos: "0 < l2norm (map2 (-) tgt cur)"
    and st: "0 \<le> step" "step \<le> l2norm (map2 (-) tgt cur)"
  shows "l2norm (map2 (-) tgt
            (map2 (+) cur (map (\<lambda>d. d / l2norm (map2 (-) tgt cur) * step) (map2 (-) tgt cur))))
         = l2norm (map2 (-) tgt cur) - step"
proof -
  let ?D = "l2norm (map2 (-) tgt cur)"
  have "0 \<le> 1 - step / ?D" using pos st by simp
  then have "\<bar>1 - step / ?D\<bar> * ?D = ?D - step"
    using pos by (simp add: algebra_simps)
  then show ?thesis
    by (simp only: step_diff [OF len] l2norm_scale)
qed

text \<open>One moving pass shortens the distance to the target by exactly the step, which
  is never longer than the distance itself.\<close>

lemma animate_next_dist:
  assumes "length tgt = length cur" and "0 < l2norm (map2 (-) tgt cur)" and "0 \<le> sp"
  shows "l2norm (map2 (-) tgt (animate_next cur tgt sp))
         = l2norm (map2 (-) tgt cur) - min (l2norm (map2 (-) tgt cur)) (0.075 * (sp / 100))"
proof -
  let ?D = "l2norm (map2 (-) tgt cur)"
  have "0 \<le> min ?D (0.075 * (sp / 100))" "min ?D (0.075 * (sp / 100)) \<le> ?D"
    using assms by simp_all
  from step_dist [OF assms(1,2) this] show ?thesis
    by (simp add: animate_next_def Let_def)
qed

lemma animate_next_length:
  "length tgt = length cur \<Longrightarrow> length (animate_next cur tgt sp) = length cur"
  by (simp add: animate_next_def Let_def)

text \<open>At a speed of at least 10 percent every pass covers 0.0075 rad or ends the
  move, so a move ends on its target after at most \<open>n + 1\<close> passes when it starts
  within \<open>0.0075 * n\<close> rad of it.\<close>

lemma animate_run_reaches:
  "is_jogging s \<Longrightarrow> alive s \<Longrightarrow> 10 \<le> jog_speed_percent s \<Longrightarrow> length tgt = length cur \<Longrightarrow>
   l2norm (map2 (-) tgt cur) \<le> 0.0075 * real n \<Longrightarrow>
   \<exists>s'. animate_run (Suc n) s cur tgt now = Some s' \<and> commanded_joints s' = tgt
        \<and> \<not> is_jogging s' \<and> last_jog_time s' = now \<and> is_robot_homed s' = is_robot_homed s
        \<and> ui_log s' = ui_log s"
proof (induction n arbitrary: s cur)
  case 0
  then have "l2norm (map2 (-) tgt cur) = 0" using l2norm_nonneg [of "map2 (-) tgt cur"] by simp
  with 0 show ?case by (simp add: animate_finish_def)
next
  case (Suc n)
  let ?D = "l2norm (map2 (-) tgt cur)"
  show ?case
  proof (cases "?D < 0.005")
    case True
    with Suc.prems show ?thesis by (simp add: animate_finish_def)
  next
    case False
    let ?nxt = "animate_next cur tgt (jog_speed_percent s)"
    let ?s1 = "s\<lparr>commanded_joints := ?nxt\<rparr>"
    have pos: "0 < ?D" using False by simp
    have sp: "0 \<le> jog_speed_percent s" using Suc.prems(3) by simp
    have d: "l2norm (map2 (-) tgt ?nxt) = ?D - min ?D (0.075 * (jog_speed_percent s / 100))"
      by (rule animate_next_dist [OF Suc.prems(4) pos sp])
    have "0.0075 \<le> 0.075 * (jog_speed_percent s / 100)" using Suc.prems(3) by simp
    then have le: "l2norm (map2 (-) tgt ?nxt) \<le> 0.0075 * real n"
      using d Suc.prems(5) by (simp add: min_def algebra_simps split: if_splits)
    have len: "length tgt = length ?nxt"
      using animate_next_length [OF Suc.prems(4)] Suc.prems(4) by simp
    have "is_jogging ?s1" "alive ?s1" "10 \<le> jog_speed_percent ?s1"
      using Suc.prems by simp_all
    from Suc.IH [OF this len le] obtain s' where
      "animate_run (Suc n) ?s1 ?nxt tgt now = Some s'" "commanded_joints s' = tgt"
      "\<not> is_jogging s'" "last_jog_time s' = now" "is_robot_homed s' = is_robot_homed s"
      "ui_log s' = ui_log s"
      by auto
    moreover have "animate_run (Suc (Suc n)) s cur tgt now = animate_run (Suc n) ?s1 ?nxt tgt now"
      using Suc.prems False by (simp add: Let_def)
    ultimately show ?thesis by simp
  qed
qed


lemma animate_move_completes:
  assumes "\<not> is_jogging s" "alive s" "10 \<le> jog_speed_percent s"
    and len: "length tgt = length (commanded_joints s)"
  shows "\<exists>n s'. animate_move n s tgt now = Some s' \<and> commanded_joints s' = tgt
           \<and> \<not> is_jogging s' \<and> last_jog_time s' = now
           \<and> is_robot_homed s' = is_robot_homed s \<and> ui_log s' = ui_log s"
proof -
  let ?D = "l2norm (map2 (-) tgt (commanded_joints s))"
  obtain n where "?D / 0.0075 \<le> real n" using real_arch_simple by blast
  then have n: "?D \<le> 0.0075 * real n" by (simp add: field_simps)
  let ?s1 = "s\<lparr>is_jogging := True\<rparr>"
  have "is_jogging ?s1" "alive ?s1" "10 \<le> jog_speed_percent ?s1"
    using assms by simp_all
  from animate_run_reaches [OF this len n, of now] obtain s' where
    "animate_run (Suc n) ?s1 (commanded_joints s) tgt now = Some s'" "commanded_joints s' = tgt"
    "\<not> is_jogging s'" "last_jog_time s' = now" "is_robot_homed s' = is_robot_homed s"
    "ui_log s' = ui_log s"
    by auto
  then have "animate_move (Suc n) s tgt now = Some s' \<and> commanded_joints s' = tgt
           \<and> \<not> is_jogging s' \<and> last_jog_time s' = now
           \<and> is_robot_homed s' = is_robot_homed s \<and> ui_log s' = ui_log s"
    using assms(1) by (simp add: animate_move_def)
  then show ?thesis by blast
qed

text \<open>A jog request on a view that is not homed changes neither the commanded vector
  nor the jogging flag, and an attached page shows the dialog and gets the code E1.\<close>

lemma on_jog_start_refused:
  "\<not> is_robot_homed s \<Longrightarrow>
   commanded_joints (on_jog_start s) = commanded_joints s
   \<and> is_jogging (on_jog_start s) = is_jogging s
   \<and> (page s \<longrightarrow> HomingRequiredDialog \<in> set (ui_log (on_jog_start s))
                \<and> (on_error s \<longrightarrow> ErrorCode ''E1'' \<in> set (ui_log (on_jog_start s))))"
  by (simp add: on_jog_start_def show_homing_required_dialog_def Let_def)

text \<open>
  Claim C5 asks that every jog or move request made before homing is refused with the
  commanded vector unchanged and the refusal shown to the operator. The jog request
  is refused (\<open>on_jog_start_refused\<close>); the point-to-point moves are not. On a view
  fresh from its constructor, hence not homed, a click on SAFETY runs the move to its
  end: the commanded vector becomes the safety pose, and the only code raised is the
  warning W2, neither the dialog nor E1.
\<close>

theorem safety_move_runs_unhomed:
  "\<not> is_robot_homed (CartesianView_init example_engine)
   \<and> (\<exists>n s'. on_safety_click n (CartesianView_init example_engine) 100 = Some s'
         \<and> commanded_joints s' = map deg2rad [0, - 50, 70, 90, 0, 0]
         \<and> commanded_joints s' \<noteq> commanded_joints (CartesianView_init example_engine)
         \<and> \<not> is_robot_homed s'
         \<and> ui_log s' = [ErrorCode ''W2''])"
proof -
  let ?s = "CartesianView_init example_engine"
  let ?s1 = "?s\<lparr>ui_log := ErrorCode ''W2'' # ui_log ?s\<rparr>"
  have st: "\<not> is_robot_homed ?s1" "\<not> is_jogging ?s1" "alive ?s1" "10 \<le> jog_speed_percent ?s1"
    "length (map deg2rad [0, - 50, 70, 90, 0, 0]) = length (commanded_joints ?s1)"
    "ui_log ?s1 = [ErrorCode ''W2'']" "on_error ?s" "commanded_joints ?s = [0, 0, 0, 0, 0, 0]"
    by (simp_all add: CartesianView_init_def)
  from animate_move_completes [OF st(2,3,4,5), of 100] obtain n s' where
    r: "animate_move n ?s1 (map deg2rad [0, - 50, 70, 90, 0, 0]) 100 = Some s'"
    "commanded_joints s' = map deg2rad [0, - 50, 70, 90, 0, 0]"
    "is_robot_homed s' = is_robot_homed ?s1" "ui_log s' = ui_log ?s1"
    by blast
  have a: "on_safety_click n ?s 100 = Some s'"
    using r(1) st(7) by (simp add: on_safety_click_def Let_def)
  have b: "commanded_joints s' \<noteq> commanded_joints ?s"
    using r(2) st(8) by (simp add: deg2rad_def)
  have c: "\<not> is_robot_homed s'" using r(3) st(1) by simp
  have d: "ui_log s' = [ErrorCode ''W2'']" using r(4) st(6) by simp
  have e: "\<not> is_robot_homed ?s" by (simp add: CartesianView_init_def)
  from a r(2) b c d have "\<exists>n s'. on_safety_click n ?s 100 = Some s'
         \<and> commanded_joints s' = map deg2rad [0, - 50, 70, 90, 0, 0]
         \<and> commanded_joints s' \<noteq> commanded_joints ?s
         \<and> \<not> is_robot_homed s'
         \<and> ui_log s' = [ErrorCode ''W2'']"
    by blast
  with e show ?thesis by blast
qed

section \<open>Feedback after the end of a motion\<close>

lemma animate_run_keeps_feedback:
  "animate_run n s cur tgt now = Some s' \<Longrightarrow> feedback_joints_deg s' = feedback_joints_deg s"
proof (induction n arbitrary: s cur)
  case 0
  then show ?case by simp
next
  case (Suc n)
  show ?case
  proof (cases "\<not> (is_jogging s \<and> alive s) \<or> length tgt \<noteq> length cur
                \<or> l2norm (map2 (-) tgt cur) < 0.005")
    case True
    with Suc.prems show ?thesis by (auto simp: animate_finish_def split: if_splits)
  next
    case False
    let ?nxt = "animate_next cur tgt (jog_speed_percent s)"
    from False Suc.prems have "animate_run n (s\<lparr>commanded_joints := ?nxt\<rparr>) ?nxt tgt now = Some s'"
      by (simp add: Let_def)
    from Suc.IH [OF this] show ?thesis by simp
  qed
qed

lemma replicate6: "replicate 6 x = [x, x, x, x, x, x]"
  by (simp add: numeral_eq_Suc)

text \<open>
  Claim C4 asks that a feedback sample arriving while a jog or a move is active, or
  within 1.5 s after the last motion ended, never changes the commanded vector. The
  sample handler keeps to it, counted from \<open>last_jog_time\<close>
  (\<open>update_from_feedback_debounce\<close>); the display loop does not. A STANDBY move ends at
  time 100 with the commanded vector at zero. A sample of 5 degrees for J1 arrives at
  time 100.1, inside the window: the handler stores it for display and leaves the
  commanded vector alone, and the next round of the display loop copies it into the
  commanded vector.
\<close>

theorem feedback_overwrites_commanded_in_cooldown:
  "(let s0 = (CartesianView_init example_engine)
               \<lparr>is_robot_homed := True, commanded_joints := [0.3, 0, 0, 0, 0, 0]\<rparr>
    in \<exists>n s'. on_standby_click n s0 100 = Some s'
         \<and> \<not> is_jogging s' \<and> last_jog_time s' = 100
         \<and> commanded_joints s' = [0, 0, 0, 0, 0, 0]
         \<and> (let s1 = update_from_feedback s' [(''J1'', 5)] 100.1;
                  s2 = update_loop_step s1
              in 100.1 - last_jog_time s' < 1.5
                 \<and> commanded_joints s1 = [0, 0, 0, 0, 0, 0]
                 \<and> feedback_joints_deg s1 = [5, 0, 0, 0, 0, 0]
                 \<and> commanded_joints s2 = [deg2rad 5, 0, 0, 0, 0, 0]
                 \<and> commanded_joints s2 \<noteq> commanded_joints s'))"
proof -
  let ?s0 = "(CartesianView_init example_engine)
               \<lparr>is_robot_homed := True, commanded_joints := [0.3, 0, 0, 0, 0, 0]\<rparr>"
  have st: "\<not> is_jogging ?s0" "alive ?s0" "10 \<le> jog_speed_percent ?s0"
    "length (replicate 6 (0::real)) = length (commanded_joints ?s0)"
    "feedback_joints_deg ?s0 = [0, 0, 0, 0, 0, 0]"
    by (simp_all add: CartesianView_init_def)
  from animate_move_completes [OF st(1,2,3,4), of 100] obtain n s' where
    r: "animate_move n ?s0 (replicate 6 0) 100 = Some s'"
    and c: "commanded_joints s' = replicate 6 0"
    and j: "\<not> is_jogging s'" and t: "last_jog_time s' = 100"
    by blast
  have fb: "feedback_joints_deg s' = [0, 0, 0, 0, 0, 0]"
  proof -
    from r st(1) have "animate_run n (?s0\<lparr>is_jogging := True\<rparr>) (commanded_joints ?s0)
        (replicate 6 0) 100 = Some s'"
      by (simp add: animate_move_def)
    from animate_run_keeps_feedback [OF this] st(5) show ?thesis by simp
  qed
  have c6: "commanded_joints s' = [0, 0, 0, 0, 0, 0]" using c by (simp add: replicate6)
  have click: "on_standby_click n ?s0 100 = Some s'"
    using r by (simp add: on_standby_click_def)
  let ?s1 = "update_from_feedback s' [(''J1'', 5)] 100.1"
  have sf: "store_feedback [0..<6] [(''J1'', 5)] [0, 0, 0, 0, 0, 0] = ([5, 0, 0, 0, 0, 0], True)"
    by (simp add: upt_rec joint_key_simps joint_key_def joint_keys_def)
  have s1: "?s1 = s'\<lparr>feedback_joints_deg := [5, 0, 0, 0, 0, 0]\<rparr>"
    using j t by (simp add: update_from_feedback_def fb sf Let_def)
  have a1: "commanded_joints ?s1 = [0, 0, 0, 0, 0, 0]" "feedback_joints_deg ?s1 = [5, 0, 0, 0, 0, 0]"
    using c6 by (simp_all add: s1)
  have a2: "commanded_joints (update_loop_step ?s1) = [deg2rad 5, 0, 0, 0, 0, 0]"
    using j c6 by (simp add: s1 update_loop_step_def Let_def deg2rad_def)
  have a3: "commanded_joints (update_loop_step ?s1) \<noteq> commanded_joints s'"
    unfolding a2 c6 by (simp add: deg2rad_def)
  have a4: "100.1 - last_jog_time s' < 1.5" using t by simp
  from click j t c6 a1 a2 a3 a4 show ?thesis unfolding Let_def by blast
qed


text \<open>The window is counted from \<open>last_jog_time\<close>, which the release of a jog button
  and the end of a move write; the STOP button ends a jog without writing it. A jog
  stopped by STOP at time 100, on a view whose \<open>last_jog_time\<close> is still 0, has the
  sample of time 100.1 written into the commanded vector by the handler itself.\<close>

lemma on_stop_click_keeps_last_jog_time:
  "\<not> is_jogging (on_stop_click s) \<and> last_jog_time (on_stop_click s) = last_jog_time s
   \<and> commanded_joints (on_stop_click s) = commanded_joints s"
  by (simp add: on_stop_click_def Let_def)

lemma stop_click_leaves_no_cooldown:
  "(let s0 = (CartesianView_init example_engine)
               \<lparr>is_robot_homed := True, is_jogging := True, commanded_joints := [0.3, 0, 0, 0, 0, 0]\<rparr>;
        s1 = on_stop_click s0;
        s2 = update_from_feedback s1 [(''J1'', 10)] 100.1
    in \<not> is_jogging s1 \<and> last_jog_time s1 = 0
       \<and> commanded_joints s2 = [deg2rad 10, 0, 0, 0, 0, 0])"
proof -
  have sf: "store_feedback [0..<6] [(''J1'', 10)] [0, 0, 0, 0, 0, 0] = ([10, 0, 0, 0, 0, 0], True)"
    by (simp add: upt_rec joint_key_simps joint_key_def joint_keys_def)
  have "pi < 4" by (rule pi_less_4)
  then have far: "\<bar>3 / 10 - deg2rad 10\<bar> > deg2rad (1 / 2)"
    by (simp add: deg2rad_def abs_if)
  have sync: "sync_commanded [0..<6]
                [deg2rad 10, deg2rad 0, deg2rad 0, deg2rad 0, deg2rad 0, deg2rad 0]
                [3 / 10, 0, 0, 0, 0, 0]
              = [deg2rad 10, 0, 0, 0, 0, 0]"
    using far by (simp add: upt_rec) (simp add: deg2rad_def)
  let ?s0 = "(CartesianView_init example_engine)
               \<lparr>is_robot_homed := True, is_jogging := True, commanded_joints := [0.3, 0, 0, 0, 0, 0]\<rparr>"
  have s1: "\<not> is_jogging (on_stop_click ?s0)" "last_jog_time (on_stop_click ?s0) = 0"
    "commanded_joints (on_stop_click ?s0) = [0.3, 0, 0, 0, 0, 0]"
    "feedback_joints_deg (on_stop_click ?s0) = [0, 0, 0, 0, 0, 0]"
    by (simp_all add: on_stop_click_def Let_def CartesianView_init_def)
  have "commanded_joints (update_from_feedback (on_stop_click ?s0) [(''J1'', 10)] 100.1)
        = [deg2rad 10, 0, 0, 0, 0, 0]"
    by (simp add: update_from_feedback_def s1 sf Let_def sync)
  with s1 show ?thesis unfolding Let_def by blast
qed

section \<open>Point-to-point moves of the joint view\<close>

lemma len6: "length xs = 6 \<Longrightarrow> \<exists>a b c d e f. xs = [a, b, c, d, e, f]"
  by (auto simp: numeral_eq_Suc length_Suc_conv)

lemma read_write_targets:
  assumes "length vals = 6"
  shows "read_targets (write_targets d vals) joint_keys = Some vals"
proof -
  from len6 [OF assms] obtain a b c e f g where v: "vals = [a, b, c, e, f, g]" by blast
  show ?thesis
    unfolding v by (simp add: write_targets_def joint_keys_def update_conv')
qed

lemma read_targets_length: "read_targets d ks = Some vs \<Longrightarrow> length vs = length ks"
  by (induction ks arbitrary: vs) (auto split: option.splits)

lemma fold_update_item_frame:
  "jog_is_jogging (fold update_item jv s) = jog_is_jogging s
   \<and> speed_percent (fold update_item jv s) = speed_percent s
   \<and> jog_is_robot_homed (fold update_item jv s) = jog_is_robot_homed s"
proof (induction jv arbitrary: s)
  case Nil
  then show ?case by simp
next
  case (Cons kv jv)
  have "jog_is_jogging (update_item kv s) = jog_is_jogging s"
    "speed_percent (update_item kv s) = speed_percent s"
    "jog_is_robot_homed (update_item kv s) = jog_is_robot_homed s"
    by (simp_all add: update_item_def Let_def split: prod.splits)
  with Cons.IH [of "update_item kv s"] show ?case by simp
qed

lemma update_joints_and_fk_frame:
  "jog_is_jogging (update_joints_and_fk s jv) = jog_is_jogging s
   \<and> speed_percent (update_joints_and_fk s jv) = speed_percent s
   \<and> jog_is_robot_homed (update_joints_and_fk s jv) = jog_is_robot_homed s"
  using fold_update_item_frame [of jv s] by (simp add: update_joints_and_fk_def Let_def)

lemma jog_animate_pass_synced:
  assumes "initial_sync_done s" "length tgt = 6" "length cur = 6"
  shows "read_targets (internal_target_values (jog_animate_pass s cur tgt)) joint_keys
           = Some (jog_animate_next cur tgt (speed_percent s))
         \<and> initial_sync_done (jog_animate_pass s cur tgt)
         \<and> jog_is_jogging (jog_animate_pass s cur tgt) = jog_is_jogging s
         \<and> speed_percent (jog_animate_pass s cur tgt) = speed_percent s"
proof -
  let ?np = "jog_animate_next cur tgt (speed_percent s)"
  let ?s1 = "s\<lparr>internal_target_values := write_targets (internal_target_values s) ?np\<rparr>"
  have l: "length ?np = 6" using assms by (simp add: jog_animate_next_def Let_def)
  have s1: "initial_sync_done ?s1" using assms by simp
  have p: "jog_animate_pass s cur tgt = update_joints_and_fk ?s1 (internal_target_values ?s1)"
    by (simp add: jog_animate_pass_def Let_def)
  have "internal_target_values (jog_animate_pass s cur tgt)
        = write_targets (internal_target_values s) ?np"
    using update_joints_and_fk_synced [OF s1] by (simp add: p)
  then have a: "read_targets (internal_target_values (jog_animate_pass s cur tgt)) joint_keys
           = Some ?np"
    using read_write_targets [OF l] by simp
  have b: "initial_sync_done (jog_animate_pass s cur tgt)"
    using update_joints_and_fk_synced [OF s1] by (simp add: p)
  have c: "jog_is_jogging (jog_animate_pass s cur tgt) = jog_is_jogging s"
    "speed_percent (jog_animate_pass s cur tgt) = speed_percent s"
    using update_joints_and_fk_frame [of ?s1] by (simp_all add: p)
  from a b c show ?thesis by blast
qed

lemma jog_animate_next_dist:
  assumes "length tgt = length cur" and "0 < l2norm (map2 (-) tgt cur)" and "0 \<le> sp"
  shows "l2norm (map2 (-) tgt (jog_animate_next cur tgt sp))
         = l2norm (map2 (-) tgt cur) - min (l2norm (map2 (-) tgt cur)) (4.5 * (real_of_int sp / 100))"
proof -
  let ?D = "l2norm (map2 (-) tgt cur)"
  have "0 \<le> min ?D (4.5 * (real_of_int sp / 100))" "min ?D (4.5 * (real_of_int sp / 100)) \<le> ?D"
    using assms by simp_all
  from step_dist [OF assms(1,2) this] show ?thesis
    by (simp add: jog_animate_next_def Let_def)
qed

text \<open>Once \<open>initial_sync_done\<close> holds, the joint view's move behaves like the
  Cartesian one: each pass shortens the distance by the step, and at a speed of at
  least 10 percent the move ends on its target after at most \<open>n + 1\<close> passes when it
  starts within \<open>0.45 * n\<close> degrees of it.\<close>

lemma jog_animate_run_reaches:
  "jog_is_jogging s \<Longrightarrow> initial_sync_done s \<Longrightarrow> 10 \<le> speed_percent s \<Longrightarrow> length tgt = 6 \<Longrightarrow>
   read_targets (internal_target_values s) joint_keys = Some cur \<Longrightarrow>
   l2norm (map2 (-) tgt cur) \<le> 0.45 * real n \<Longrightarrow>
   \<exists>s'. jog_animate_run (Suc n) s tgt = Some s'
        \<and> read_targets (internal_target_values s') joint_keys = Some tgt
        \<and> \<not> jog_is_jogging s'"
proof (induction n arbitrary: s cur)
  case 0
  have lc: "length cur = 6"
    using read_targets_length [OF "0.prems"(5)] by (simp add: joint_keys_def)
  have z: "l2norm (map2 (-) tgt cur) = 0"
    using "0.prems"(6) l2norm_nonneg [of "map2 (-) tgt cur"] by simp
  let ?s1 = "s\<lparr>internal_target_values := write_targets (internal_target_values s) tgt\<rparr>"
  have s1: "initial_sync_done ?s1" using "0.prems" by simp
  have "internal_target_values (update_joints_and_fk ?s1 (internal_target_values ?s1))
        = write_targets (internal_target_values s) tgt"
    using update_joints_and_fk_synced [OF s1] by simp
  then have "read_targets (internal_target_values (update_joints_and_fk ?s1 (internal_target_values ?s1)))
        joint_keys = Some tgt"
    using read_write_targets [OF "0.prems"(4)] by simp
  then show ?case using "0.prems" lc z by (simp add: Let_def)
next
  case (Suc n)
  have lc: "length cur = 6"
    using read_targets_length [OF Suc.prems(5)] by (simp add: joint_keys_def)
  let ?D = "l2norm (map2 (-) tgt cur)"
  show ?case
  proof (cases "?D < 0.1")
    case True
    let ?s1 = "s\<lparr>internal_target_values := write_targets (internal_target_values s) tgt\<rparr>"
    have s1: "initial_sync_done ?s1" using Suc.prems by simp
    have "internal_target_values (update_joints_and_fk ?s1 (internal_target_values ?s1))
          = write_targets (internal_target_values s) tgt"
      using update_joints_and_fk_synced [OF s1] by simp
    then have "read_targets (internal_target_values (update_joints_and_fk ?s1 (internal_target_values ?s1)))
          joint_keys = Some tgt"
      using read_write_targets [OF Suc.prems(4)] by simp
    then show ?thesis using Suc.prems lc True by (simp add: Let_def)
  next
    case False
    let ?nxt = "jog_animate_next cur tgt (speed_percent s)"
    let ?s1 = "jog_animate_pass s cur tgt"
    have pos: "0 < ?D" using False by simp
    have len: "length tgt = length cur" using lc Suc.prems(4) by simp
    have sp: "0 \<le> speed_percent s" using Suc.prems(3) by simp
    have d: "l2norm (map2 (-) tgt ?nxt) = ?D - min ?D (4.5 * (real_of_int (speed_percent s) / 100))"
      by (rule jog_animate_next_dist [OF len pos sp])
    have "10 \<le> real_of_int (speed_percent s)" using Suc.prems(3) by simp
    then have "0.45 \<le> 4.5 * (real_of_int (speed_percent s) / 100)" by simp
    then have le: "l2norm (map2 (-) tgt ?nxt) \<le> 0.45 * real n"
      using d Suc.prems(6) by (simp add: min_def algebra_simps split: if_splits)
    note pass = jog_animate_pass_synced [OF Suc.prems(2) Suc.prems(4) lc]
    have "jog_is_jogging ?s1" "initial_sync_done ?s1" "10 \<le> speed_percent ?s1"
      using pass Suc.prems by simp_all
    from Suc.IH [OF this Suc.prems(4) pass [THEN conjunct1] le] obtain s' where
      "jog_animate_run (Suc n) ?s1 tgt = Some s'"
      "read_targets (internal_target_values s') joint_keys = Some tgt" "\<not> jog_is_jogging s'"
      by auto
    moreover have "jog_animate_run (Suc (Suc n)) s tgt = jog_animate_run (Suc n) ?s1 tgt"
      using Suc.prems False len by (simp add: Let_def)
    ultimately show ?thesis by simp
  qed
qed

lemma safety_dist_pos: "0 < l2norm [0, - 50, 70, 90, 0, 0]"
  by (simp add: l2norm_def)

lemma init_read: "read_targets (internal_target_values (JogView_init\<lparr>jog_is_jogging := True\<rparr>)) joint_keys
   = Some [0, 0, 0, 0, 0, 0]"
  by (simp add: JogView_init_def joint_keys_def)

lemma first_pass_targets:
  "read_targets (internal_target_values
      (jog_animate_pass (JogView_init\<lparr>jog_is_jogging := True\<rparr>) [0, 0, 0, 0, 0, 0] [0, - 50, 70, 90, 0, 0]))
      joint_keys
   = Some (map (\<lambda>d. - (d / l2norm [0, - 50, 70, 90, 0, 0] * min (l2norm [0, - 50, 70, 90, 0, 0]) 2.25))
             [0, - 50, 70, 90, 0, 0])"
  by (simp add: jog_animate_pass_def jog_animate_next_def write_targets_def update_joints_and_fk_def
      update_item_def joint_keys_def JogView_init_def Let_def)


lemma away_diff:
  "map2 (-) xs (map (\<lambda>d. - (d / D * step)) xs) = map (\<lambda>d. (1 + step / D) * d) xs"
  for D step :: real
  by (induction xs) (simp_all add: algebra_simps)

lemma away_dist:
  assumes "0 < l2norm xs" "0 < step"
  shows "l2norm (map2 (-) xs (map (\<lambda>d. - (d / l2norm xs * step)) xs)) = l2norm xs + step"
proof -
  have "0 \<le> 1 + step / l2norm xs" using assms by simp
  then have "\<bar>1 + step / l2norm xs\<bar> * l2norm xs = l2norm xs + step"
    using assms by (simp add: algebra_simps)
  then show ?thesis by (simp only: away_diff l2norm_scale)
qed

text \<open>
  Claim C8 asks that the distance to the target never grows from one pass of a move to
  the next, in both views. It holds in the Cartesian view (\<open>animate_next_dist\<close>,
  \<open>animate_run_reaches\<close>) and in the joint view once \<open>initial_sync_done\<close> is set
  (\<open>jog_animate_next_dist\<close>, \<open>jog_animate_run_reaches\<close>). On a joint view fresh
  from its constructor it fails: the first pass of the SAFETY move stores its step and
  then refreshes the display through \<open>update_joints_and_fk\<close>, which, the first sync
  not being done, writes every target back with its sign turned. The targets end up
  on the far side of the start, and the distance to the target has grown by the step.
\<close>

theorem jog_safety_move_first_pass_recedes:
  "(let s0 = JogView_init\<lparr>jog_is_jogging := True\<rparr>;
        target = [0, - 50, 70, 90, 0, 0];
        s1 = jog_animate_pass s0 [0, 0, 0, 0, 0, 0] target
    in read_targets (internal_target_values s0) joint_keys = Some [0, 0, 0, 0, 0, 0]
       \<and> jog_animate_run (Suc n) s0 target = jog_animate_run n s1 target
       \<and> (\<exists>cur1. read_targets (internal_target_values s1) joint_keys = Some cur1
             \<and> l2norm (map2 (-) target cur1) > l2norm (map2 (-) target [0, 0, 0, 0, 0, 0])))"
proof -
  let ?T = "[0, - 50, 70, 90, 0, 0] :: real list"
  let ?s0 = "JogView_init\<lparr>jog_is_jogging := True\<rparr>"
  let ?D = "l2norm ?T"
  let ?st = "min ?D 2.25"
  have diff0: "map2 (-) ?T [0, 0, 0, 0, 0, 0] = ?T" by simp
  have st: "0 < ?st" using safety_dist_pos by simp
  have far: "\<not> ?D < 0.1"
  proof -
    have "(0.1 :: real)\<^sup>2 < 15500" by (simp add: power2_eq_square)
    then have "0.1 < sqrt 15500" by (rule real_less_rsqrt)
    then show ?thesis by (simp add: l2norm_def)
  qed
  have run: "jog_animate_run (Suc n) ?s0 ?T
             = jog_animate_run n (jog_animate_pass ?s0 [0, 0, 0, 0, 0, 0] ?T) ?T"
    using init_read far by (simp add: diff0)
  have "l2norm (map2 (-) ?T (map (\<lambda>d. - (d / ?D * ?st)) ?T)) = ?D + ?st"
    by (rule away_dist [OF safety_dist_pos st])
  then have "l2norm (map2 (-) ?T (map (\<lambda>d. - (d / ?D * ?st)) ?T)) > l2norm (map2 (-) ?T [0, 0, 0, 0, 0, 0])"
    using st by (simp only: diff0)
  with first_pass_targets have
    "\<exists>cur1. read_targets (internal_target_values (jog_animate_pass ?s0 [0, 0, 0, 0, 0, 0] ?T)) joint_keys
              = Some cur1
          \<and> l2norm (map2 (-) ?T cur1) > l2norm (map2 (-) ?T [0, 0, 0, 0, 0, 0])"
    by blast
  with init_read run show ?thesis unfolding Let_def by blast
qed

end
